theory Spec2Isabelle
  imports Complex_Main
begin

section \<open>Values of the host language\<close>

text \<open>
  The mocking module works on untyped JavaScript values. A value is a primitive, an
  array, or an object. An object has a callable slot (the name of the function it
  runs when it is called; \<open>None\<close> for a plain object), its own data properties in
  insertion order, each with its enumerable flag, and a prototype (\<open>Null\<close> ends the
  chain). Two kinds of object that the module creates itself have a constructor of
  their own: an instance of class \<open>MockList\<close> (fields \<open>len\<close> and \<open>wrappedFunction\<close>)
  and a type object of the schema, known by its name.

  Numbers are idealised as reals (no rounding, no NaN). Accessor properties,
  symbols and promises are outside the model; a resolver's result stands for the
  settled value of whatever it returned.
\<close>

type_synonym fid = string

text \<open>\<open>len: number | number[]\<close> of class \<open>MockList\<close>.\<close>

datatype mlen = LenNum real | LenArr "real list"

datatype jsval =
    Undefined
  | Null
  | Bool bool
  | Num real
  | Str string
  | Arr "jsval list"
  | Obj "fid option" "(string \<times> jsval \<times> bool) list" jsval
  | TypeObj string
  | MockListV mlen "jsval option"

type_synonym props = "(string \<times> jsval \<times> bool) list"

datatype error =
    Error string
  | TypeError
  | RangeError
  | Unmodelled

text \<open>
  \<open>Unmodelled\<close> is not an error of the program: it marks the few places where the
  code reaches a behaviour of the language that the value model cannot represent
  (boxing a primitive, the index properties of a string or an array).
\<close>

subsection \<open>Built-in objects\<close>

definition builtin :: "string \<Rightarrow> jsval" where
  "builtin name = Obj (Some name) [] Null"

text \<open>The standard data properties of \<open>Object.prototype\<close>, none of them enumerable.\<close>

definition objectPrototype :: jsval where
  "objectPrototype = Obj None
     [(''constructor'', builtin ''Object'', False),
      (''hasOwnProperty'', builtin ''Object.prototype.hasOwnProperty'', False),
      (''isPrototypeOf'', builtin ''Object.prototype.isPrototypeOf'', False),
      (''propertyIsEnumerable'', builtin ''Object.prototype.propertyIsEnumerable'', False),
      (''toLocaleString'', builtin ''Object.prototype.toLocaleString'', False),
      (''toString'', builtin ''Object.prototype.toString'', False),
      (''valueOf'', builtin ''Object.prototype.valueOf'', False)]
     Null"

text \<open>The object literal \<open>{k1: v1, ...}\<close>; \<open>emptyObject\<close> is \<open>{}\<close>.\<close>

definition literal :: "(string \<times> jsval) list \<Rightarrow> jsval" where
  "literal kvs = Obj None (map (\<lambda>(k, v). (k, v, True)) kvs) objectPrototype"

definition emptyObject :: jsval where
  "emptyObject = literal []"

text \<open>\<open>MockList.prototype\<close>: the class has a constructor and the methods \<open>mock\<close> and \<open>randint\<close>.\<close>

definition mockListPrototype :: jsval where
  "mockListPrototype = Obj None
     [(''constructor'', builtin ''MockList'', False),
      (''mock'', builtin ''MockList.prototype.mock'', False),
      (''randint'', builtin ''MockList.prototype.randint'', False)]
     objectPrototype"

subsection \<open>Properties\<close>

definition mlen_val :: "mlen \<Rightarrow> jsval" where
  "mlen_val l = (case l of LenNum x \<Rightarrow> Num x | LenArr xs \<Rightarrow> Arr (map Num xs))"

text \<open>
  \<open>Object.getOwnPropertyNames\<close> with the descriptors: the own properties of an
  object. The constructor of \<open>MockList\<close> always assigns \<open>len\<close> and assigns
  \<open>wrappedFunction\<close> only when one is passed. Of a schema type object only the
  \<open>name\<close> is modelled.
\<close>

fun ownProps :: "jsval \<Rightarrow> props" where
  "ownProps (Obj c ps p) = ps"
| "ownProps (MockListV l w) =
     (''len'', mlen_val l, True) #
       (case w of None \<Rightarrow> [] | Some f \<Rightarrow> [(''wrappedFunction'', f, True)])"
| "ownProps (TypeObj n) = [(''name'', Str n, True)]"
| "ownProps v = []"

text \<open>\<open>Object.keys\<close>: the enumerable own properties, with their values.\<close>

definition enumProps :: "jsval \<Rightarrow> (string \<times> jsval) list" where
  "enumProps v = map (\<lambda>(k, x, e). (k, x)) (filter (\<lambda>(k, x, e). e) (ownProps v))"

text \<open>
  The objects visited by \<open>while (chain) { ...; chain = Object.getPrototypeOf(chain) }\<close>
  starting at an object, and the properties found on the way, nearest first.
\<close>

fun protoChain :: "jsval \<Rightarrow> jsval list" where
  "protoChain (Obj c ps p) = Obj c ps p # protoChain p"
| "protoChain (MockListV l w) = [MockListV l w, mockListPrototype, objectPrototype]"
| "protoChain (TypeObj n) = [TypeObj n]"
| "protoChain v = []"

definition chainProps :: "jsval \<Rightarrow> props" where
  "chainProps v = concat (map ownProps (protoChain v))"

text \<open>
  Reading \<open>v[k]\<close> for a name \<open>k\<close>: the own property, else the one found along the
  prototype chain, else \<open>undefined\<close>. Arrays answer \<open>length\<close>; the methods that
  arrays and primitives inherit from their built-in prototypes are not modelled.
\<close>

definition lookupChain :: "jsval \<Rightarrow> string \<Rightarrow> (jsval \<times> bool) option" where
  "lookupChain v k = map_of (chainProps v) k"

definition getProp :: "jsval \<Rightarrow> string \<Rightarrow> jsval" where
  "getProp v k =
     (case v of
        Arr xs \<Rightarrow> (if k = ''length'' then Num (real (length xs)) else Undefined)
      | _ \<Rightarrow> (case lookupChain v k of Some (x, e) \<Rightarrow> x | None \<Rightarrow> Undefined))"

text \<open>Reading a property of \<open>undefined\<close> or \<open>null\<close> throws.\<close>

definition getPropChecked :: "jsval \<Rightarrow> string \<Rightarrow> error + jsval" where
  "getPropChecked v k =
     (if v = Undefined \<or> v = Null then Inl TypeError else Inr (getProp v k))"

text \<open>The assignment \<open>o[k] = v\<close> on the own properties of an object.\<close>

fun setProp :: "props \<Rightarrow> string \<Rightarrow> jsval \<Rightarrow> props" where
  "setProp [] k v = [(k, v, True)]"
| "setProp ((k', x, e) # ps) k v =
     (if k' = k then (k, v, e) # ps else (k', x, e) # setProp ps k v)"

text \<open>Truthiness, \<open>typeof v === 'function'\<close> and calls.\<close>

fun truthy :: "jsval \<Rightarrow> bool" where
  "truthy Undefined = False"
| "truthy Null = False"
| "truthy (Bool b) = b"
| "truthy (Num x) = (x \<noteq> 0)"
| "truthy (Str s) = (s \<noteq> [])"
| "truthy v = True"

fun isFunction :: "jsval \<Rightarrow> bool" where
  "isFunction (Obj (Some f) ps p) = True"
| "isFunction v = False"

text \<open>
  \<open>isObject\<close> of the source, \<open>thing === Object(thing) && !Array.isArray(thing)\<close>:
  every object that is not an array, functions included.
\<close>

fun isObject :: "jsval \<Rightarrow> bool" where
  "isObject (Obj c ps p) = True"
| "isObject (TypeObj n) = True"
| "isObject (MockListV l w) = True"
| "isObject v = False"

text \<open>
  \<open>Object.assign(target, source)\<close>: \<open>undefined\<close> and \<open>null\<close> are no target; the
  enumerable own properties of the source are assigned to the target, in order, and
  the target is returned. A source without properties adds nothing.
\<close>

definition assignProps :: "props \<Rightarrow> (string \<times> jsval) list \<Rightarrow> props" where
  "assignProps ps kvs = foldl (\<lambda>acc (k, v). setProp acc k v) ps kvs"

fun sourceProps :: "jsval \<Rightarrow> error + (string \<times> jsval) list" where
  "sourceProps (Str s) = (if s = [] then Inr [] else Inl Unmodelled)"
| "sourceProps (Arr xs) = (if xs = [] then Inr [] else Inl Unmodelled)"
| "sourceProps v = Inr (enumProps v)"

fun objectAssign :: "jsval \<Rightarrow> jsval \<Rightarrow> error + jsval" where
  "objectAssign Undefined b = Inl TypeError"
| "objectAssign Null b = Inl TypeError"
| "objectAssign (Obj c ps p) b =
     (case sourceProps b of Inl e \<Rightarrow> Inl e | Inr kvs \<Rightarrow> Inr (Obj c (assignProps ps kvs) p))"
| "objectAssign a b = Inl Unmodelled"

section \<open>Schema types\<close>

text \<open>
  A type of the schema, as the type objects of the schema library nest: the two
  wrappers, and the named types. A union carries the names of its member object
  types, an enum the values of its entries.
\<close>

datatype gtype =
    NonNullT gtype
  | ListT gtype
  | ObjectT string
  | UnionT string "string list"
  | InterfaceT string
  | EnumT string "jsval list"
  | ScalarT string

text \<open>
  \<open>getNullableType\<close> and \<open>getNamedType\<close> of the schema library, on a type that may be
  \<open>undefined\<close>; \<open>t.name\<close> and \<open>t.ofType\<close> of a type object.
\<close>

fun getNullableType :: "gtype option \<Rightarrow> gtype option" where
  "getNullableType (Some (NonNullT t)) = Some t"
| "getNullableType t = t"

fun unwrapType :: "gtype \<Rightarrow> gtype" where
  "unwrapType (NonNullT t) = unwrapType t"
| "unwrapType (ListT t) = unwrapType t"
| "unwrapType t = t"

definition getNamedType :: "gtype option \<Rightarrow> gtype option" where
  "getNamedType t = map_option unwrapType t"

fun gtypeName :: "gtype \<Rightarrow> string option" where
  "gtypeName (NonNullT t) = None"
| "gtypeName (ListT t) = None"
| "gtypeName (ObjectT n) = Some n"
| "gtypeName (UnionT n ms) = Some n"
| "gtypeName (InterfaceT n) = Some n"
| "gtypeName (EnumT n vs) = Some n"
| "gtypeName (ScalarT n) = Some n"

fun ofType :: "gtype \<Rightarrow> gtype option" where
  "ofType (NonNullT t) = Some t"
| "ofType (ListT t) = Some t"
| "ofType t = None"

text \<open>A missing value printed inside a template string, and used as a property key.\<close>

definition orUndefined :: "string option \<Rightarrow> string" where
  "orUndefined s = (case s of None \<Rightarrow> ''undefined'' | Some x \<Rightarrow> x)"

section \<open>The environment of a resolution\<close>

text \<open>
  The arguments \<open>(args, context, info)\<close> that go with the root value through every
  call. The environment holds what the closures of \<open>addMockFunctionsToSchema\<close> see
  and what the runtime supplies: the functions behind the callable objects (each a
  function of the four arguments that returns or throws), the successive results of
  \<open>Math.random()\<close> and of \<open>uuid.v4()\<close>, numbered by the count of draws made so far,
  \<open>schema.getPossibleTypes\<close>, and the \<open>mockFunctionMap\<close>.
\<close>

type_synonym rargs = "jsval \<times> jsval \<times> jsval"

record env =
  call_fn :: "fid \<Rightarrow> jsval \<Rightarrow> rargs \<Rightarrow> error + jsval"
  math_random :: "nat \<Rightarrow> real"
  uuid_v4 :: "nat \<Rightarrow> string"
  getPossibleTypes :: "string \<Rightarrow> string list"
  mockFunctionMap :: "(string \<times> jsval) list"

definition callFn :: "env \<Rightarrow> jsval \<Rightarrow> jsval \<Rightarrow> rargs \<Rightarrow> error + jsval" where
  "callFn env f rt a =
     (case f of Obj (Some name) ps p \<Rightarrow> call_fn env name rt a | _ \<Rightarrow> Inl TypeError)"

text \<open>\<open>mockFunctionMap.has(name)\<close> and \<open>.get(name)\<close>; no key is \<open>undefined\<close>.\<close>

definition lookupMock :: "env \<Rightarrow> string option \<Rightarrow> jsval option" where
  "lookupMock env name = (case name of None \<Rightarrow> None | Some n \<Rightarrow> map_of (mockFunctionMap env) n)"

text \<open>
  \<open>defaultMockMap\<close>: the five default scalars. \<open>Math.round(x)\<close> is \<open>\<lfloor>x + 1/2\<rfloor>\<close>. Each
  draw advances the counter. The numbers are computed over the exact reals, without
  the rounding of doubles; nothing below depends on the value of a default \<open>Int\<close> or
  \<open>Float\<close> beyond the concrete cases at the draws 0 and 1/2, where the two agree.
\<close>

definition defaultMock :: "env \<Rightarrow> string \<Rightarrow> nat \<Rightarrow> (jsval \<times> nat) option" where
  "defaultMock env name n =
     (if name = ''Int'' then Some (Num (of_int \<lfloor>math_random env n * 200 + 1 / 2\<rfloor> - 100), Suc n)
      else if name = ''Float'' then Some (Num (math_random env n * 200 - 100), Suc n)
      else if name = ''String'' then Some (Str ''Hello World'', n)
      else if name = ''Boolean'' then Some (Bool (math_random env n > 1 / 2), Suc n)
      else if name = ''ID'' then Some (Str (uuid_v4 env n), Suc n)
      else None)"

text \<open>
  \<open>getRandomElement\<close>: \<open>ary[Math.floor(Math.random() * ary.length)]\<close>, which is
  \<open>undefined\<close> when the index is not one of the array.
\<close>

definition getRandomElement :: "env \<Rightarrow> 'a list \<Rightarrow> nat \<Rightarrow> 'a option" where
  "getRandomElement env ary n =
     (let sample = \<lfloor>math_random env n * real (length ary)\<rfloor>
      in if 0 \<le> sample \<and> sample < int (length ary) then Some (ary ! nat sample) else None)"

text \<open>
  \<open>mergeMocks\<close>: the generic mock function is a bound registry factory; \<open>g\<close> is what
  a call of it gives, the same at every call, since a function of the environment is
  a function of its arguments. Objects are values here: \<open>Object.assign\<close> gives the
  target with the properties assigned, and that the source changes the factory's own
  object in place is not modelled; a factory that hands out one shared object at
  every call, whose merged elements would all be that one object, is outside the
  model.
\<close>

definition mergeObjects :: "jsval \<Rightarrow> jsval \<Rightarrow> error + jsval" where
  "mergeObjects a b = objectAssign a b"

fun mergeMocks :: "(error + jsval) \<Rightarrow> jsval \<Rightarrow> error + jsval"
  and mergeMocksList :: "(error + jsval) \<Rightarrow> jsval list \<Rightarrow> error + jsval list" where
  "mergeMocks g (Arr xs) =
     (case mergeMocksList g xs of Inl e \<Rightarrow> Inl e | Inr ys \<Rightarrow> Inr (Arr ys))"
| "mergeMocks g v =
     (if isObject v then (case g of Inl e \<Rightarrow> Inl e | Inr t \<Rightarrow> mergeObjects t v) else Inr v)"
| "mergeMocksList g [] = Inr []"
| "mergeMocksList g (x # xs) =
     (case mergeMocks g x of Inl e \<Rightarrow> Inl e
      | Inr y \<Rightarrow> (case mergeMocksList g xs of Inl e \<Rightarrow> Inl e | Inr ys \<Rightarrow> Inr (y # ys)))"

section \<open>MockList\<close>

text \<open>
  The constructor: the length is stored as it is; a second argument that is not
  \<open>undefined\<close> must be a function.
\<close>

definition MockList :: "mlen \<Rightarrow> jsval \<Rightarrow> error + jsval" where
  "MockList len wrappedFunction =
     (if wrappedFunction \<noteq> Undefined then
        (if \<not> isFunction wrappedFunction
         then Inl (Error ''Second argument to MockList must be a function or undefined'')
         else Inr (MockListV len (Some wrappedFunction)))
      else Inr (MockListV len None))"

text \<open>
  \<open>randint(low, high)\<close> on the draw \<open>r\<close> of \<open>Math.random()\<close>. Numbers are exact reals
  here, and \<open>randint\<close> is the expression of the source over them; the resolver
  below and the statements about it use this one.
\<close>

definition randint :: "real \<Rightarrow> real \<Rightarrow> real \<Rightarrow> real" where
  "randint low high r = of_int \<lfloor>r * ((high - low) + 1) + low\<rfloor>"

text \<open>
  The source computes in IEEE 754 doubles: the result of each operation is rounded to
  the nearest number with a significand of 53 bits, a tie going to the even
  significand. \<open>toDouble\<close> is that rounding on the numbers of the normal range
  (overflow and subnormal numbers are left out), and \<open>randintDouble\<close> is the
  expression of \<open>randint\<close> with each of its four operations rounded.
\<close>

definition roundEven :: "real \<Rightarrow> int" where
  "roundEven x =
     (let f = \<lfloor>x\<rfloor>; d = x - of_int f
      in if d < 1 / 2 then f else if 1 / 2 < d then f + 1 else if even f then f else f + 1)"

definition toDouble :: "real \<Rightarrow> real" where
  "toDouble x =
     (if x = 0 then 0
      else (let e = \<lfloor>log 2 \<bar>x\<bar>\<rfloor> - 52 in of_int (roundEven (x / 2 powr of_int e)) * 2 powr of_int e))"

definition randintDouble :: "real \<Rightarrow> real \<Rightarrow> real \<Rightarrow> real" where
  "randintDouble low high r =
     of_int \<lfloor>toDouble (toDouble (r * toDouble (toDouble (high - low) + 1)) + low)\<rfloor>"

text \<open>
  \<open>new Array(x)\<close> for a number \<open>x\<close>: an array of \<open>x\<close> slots when \<open>x\<close> is an integer
  from 0 to \<open>2^32 - 1\<close>, a \<open>RangeError\<close> otherwise.
\<close>

definition newArray :: "real \<Rightarrow> error + nat" where
  "newArray x =
     (if of_int \<lfloor>x\<rfloor> = x \<and> 0 \<le> x \<and> x < 2 ^ 32 then Inr (nat \<lfloor>x\<rfloor>) else Inl RangeError)"

text \<open>
  The first lines of \<open>mock\<close>: the length of the array, and the counter after it. With
  fewer than two entries in \<open>len\<close> the bounds are \<open>undefined\<close>, \<open>randint\<close> is not a
  number, and \<open>new Array\<close> throws.
\<close>

definition mockLength :: "env \<Rightarrow> mlen \<Rightarrow> nat \<Rightarrow> error + (nat \<times> nat)" where
  "mockLength env len n =
     (case len of
        LenArr xs \<Rightarrow>
          (if length xs < 2 then Inl RangeError
           else (case newArray (randint (xs ! 0) (xs ! 1) (math_random env n)) of
                   Inl e \<Rightarrow> Inl e | Inr k \<Rightarrow> Inr (k, Suc n)))
      | LenNum x \<Rightarrow> (case newArray x of Inl e \<Rightarrow> Inl e | Inr k \<Rightarrow> Inr (k, n)))"

section \<open>The mock value resolver\<close>

text \<open>
  A measure of the types for the termination of the resolver: a wrapper is larger
  than what it wraps, an abstract type larger than an object type, and a missing
  type smallest.
\<close>

fun tsize :: "gtype \<Rightarrow> nat" where
  "tsize (NonNullT t) = Suc (tsize t)"
| "tsize (ListT t) = Suc (tsize t)"
| "tsize (UnionT n ms) = 1"
| "tsize (InterfaceT n) = 1"
| "tsize t = 0"

definition otsize :: "gtype option \<Rightarrow> nat" where
  "otsize t = (case t of None \<Rightarrow> 0 | Some x \<Rightarrow> Suc (tsize x))"

lemma otsize_getNullableType: "otsize (getNullableType t) \<le> otsize t"
  by (cases t rule: getNullableType.cases) (auto simp: otsize_def)

lemma otsize_ofType: "otsize (ofType ft) < otsize (Some ft)"
  by (cases ft) (auto simp: otsize_def)

lemma otsize_nullable_ofType: "otsize (getNullableType (ofType ft)) < otsize (Some ft)"
  using otsize_getNullableType [of "ofType ft"] otsize_ofType [of ft] by simp

lemma otsize_list_elem: "Some (ListT t) = getNullableType ty \<Longrightarrow> otsize (Some t) < otsize ty"
  using otsize_getNullableType [of ty] by (auto simp: otsize_def split: option.splits)

lemma otsize_object: "otsize (map_option ObjectT m) \<le> 1"
  by (cases m) (auto simp: otsize_def)

lemma otsize_union_member:
  "Some (UnionT nm ms) = getNullableType ty \<Longrightarrow> otsize (map_option ObjectT m) < otsize ty"
  using otsize_getNullableType [of ty] otsize_object [of m]
  by (auto simp: otsize_def split: option.splits)

lemma otsize_interface_member:
  "Some (InterfaceT nm) = getNullableType ty \<Longrightarrow> otsize (map_option ObjectT m) < otsize ty"
  using otsize_getNullableType [of ty] otsize_object [of m]
  by (auto simp: otsize_def split: option.splits)

lemma otsize_nullable_less:
  "otsize (getNullableType ty) \<noteq> otsize ty \<Longrightarrow> otsize (getNullableType ty) < otsize ty"
  using otsize_getNullableType [of ty] by simp

text \<open>
  The value stamped as \<open>typename\<close>: the type object picked, \<open>undefined\<close> when the
  pick fell outside the array. The message of the last line of \<open>mockType\<close>.
\<close>

definition typeRef :: "string option \<Rightarrow> jsval" where
  "typeRef t = (case t of None \<Rightarrow> Undefined | Some m \<Rightarrow> TypeObj m)"

definition noMockDefined :: "string option \<Rightarrow> error" where
  "noMockDefined name = Error (''No mock defined for type '' @ [CHR 0x22] @ orUndefined name @ [CHR 0x22])"

text \<open>
  \<open>mockType(type, typeName, fieldName)(root, args, context, info)\<close> and
  \<open>MockList.mock\<close>, whose \<open>mockTypeFunc\<close> is always \<open>mockType\<close>. \<open>mockLoop\<close> is the
  \<open>for\<close> loop of \<open>mock\<close> over the remaining indices. The last argument is the count
  of draws made so far; a result carries the count after it. \<open>Inl\<close> is a throw.
\<close>

function mockType :: "env \<Rightarrow> gtype option \<Rightarrow> string option \<Rightarrow> string option \<Rightarrow> jsval \<Rightarrow> rargs \<Rightarrow> nat \<Rightarrow> error + (jsval \<times> nat)"
  and mock :: "env \<Rightarrow> mlen \<Rightarrow> jsval option \<Rightarrow> jsval \<Rightarrow> rargs \<Rightarrow> gtype option \<Rightarrow> nat \<Rightarrow> error + (jsval \<times> nat)"
  and mockLoop :: "env \<Rightarrow> jsval option \<Rightarrow> jsval \<Rightarrow> rargs \<Rightarrow> gtype option \<Rightarrow> nat \<Rightarrow> nat \<Rightarrow> error + (jsval list \<times> nat)"
where
  "mockType env ty typeName fieldName rt a n =
     (let fieldType = getNullableType ty;
          namedFieldType = getNamedType fieldType;
          existing = getProp rt (orUndefined fieldName)
      in if truthy rt \<and> existing \<noteq> Undefined then
           (case (if isFunction existing
                  then (case callFn env existing rt a of
                          Inl e \<Rightarrow> Inl e
                        | Inr r \<Rightarrow> (case r of
                                      MockListV l w \<Rightarrow> mock env l w rt a fieldType n
                                    | _ \<Rightarrow> Inr (r, n)))
                  else Inr (existing, n)) of
              Inl e \<Rightarrow> Inl e
            | Inr (result, n') \<Rightarrow>
                (case namedFieldType of
                   None \<Rightarrow> Inl TypeError
                 | Some nt \<Rightarrow>
                     (case lookupMock env (gtypeName nt) of
                        None \<Rightarrow> Inr (result, n')
                      | Some f \<Rightarrow>
                          (case mergeMocks (callFn env f rt a) result of
                             Inl e \<Rightarrow> Inl e
                           | Inr merged \<Rightarrow> Inr (merged, n')))))
         else
           (case fieldType of
              None \<Rightarrow> Inl TypeError
            | Some ft \<Rightarrow>
               (case ft of
                  ListT t \<Rightarrow>
                    (case mockType env (Some t) None None rt a n of
                       Inl e \<Rightarrow> Inl e
                     | Inr (v1, n1) \<Rightarrow>
                         (case mockType env (Some t) None None rt a n1 of
                            Inl e \<Rightarrow> Inl e
                          | Inr (v2, n2) \<Rightarrow> Inr (Arr [v1, v2], n2)))
                | _ \<Rightarrow>
                    (case lookupMock env (gtypeName ft) of
                       Some f \<Rightarrow>
                         (case callFn env f rt a of Inl e \<Rightarrow> Inl e | Inr v \<Rightarrow> Inr (v, n))
                     | None \<Rightarrow>
                         (case ft of
                            ObjectT nm \<Rightarrow> Inr (emptyObject, n)
                          | UnionT nm ms \<Rightarrow>
                              (let randomType = getRandomElement env ms n
                               in case mockType env (map_option ObjectT randomType) None None rt a (Suc n) of
                                    Inl e \<Rightarrow> Inl e
                                  | Inr (v, n') \<Rightarrow>
                                      (case objectAssign (literal [(''typename'', typeRef randomType)]) v of
                                         Inl e \<Rightarrow> Inl e
                                       | Inr r \<Rightarrow> Inr (r, n')))
                          | InterfaceT nm \<Rightarrow>
                              (let possibleTypes = getPossibleTypes env nm;
                                   randomType = getRandomElement env possibleTypes n
                               in case mockType env (map_option ObjectT randomType) None None rt a (Suc n) of
                                    Inl e \<Rightarrow> Inl e
                                  | Inr (v, n') \<Rightarrow>
                                      (case objectAssign (literal [(''typename'', typeRef randomType)]) v of
                                         Inl e \<Rightarrow> Inl e
                                       | Inr r \<Rightarrow> Inr (r, n')))
                          | EnumT nm vs \<Rightarrow>
                              (case getRandomElement env vs n of
                                 None \<Rightarrow> Inl TypeError
                               | Some v \<Rightarrow> Inr (v, Suc n))
                          | _ \<Rightarrow>
                              (case gtypeName ft of
                                 None \<Rightarrow> Inl (noMockDefined None)
                               | Some nm \<Rightarrow>
                                   (case defaultMock env nm n of
                                      Some r \<Rightarrow> Inr r
                                    | None \<Rightarrow> Inl (noMockDefined (Some nm)))))))))"
| "mock env len wrappedFunction rt a fieldType n =
     (case mockLength env len n of
        Inl e \<Rightarrow> Inl e
      | Inr (k, n') \<Rightarrow>
          (case mockLoop env wrappedFunction rt a fieldType k n' of
             Inl e \<Rightarrow> Inl e
           | Inr (arr, n'') \<Rightarrow> Inr (Arr arr, n'')))"
| "mockLoop env wrappedFunction rt a fieldType 0 n = Inr ([], n)"
| "mockLoop env wrappedFunction rt a fieldType (Suc k) n =
     (case (if (case wrappedFunction of None \<Rightarrow> False | Some f \<Rightarrow> isFunction f)
            then (case callFn env (the wrappedFunction) rt a of
                    Inl e \<Rightarrow> Inl e
                  | Inr res \<Rightarrow>
                      (case res of
                         MockListV l w \<Rightarrow>
                           (case fieldType of
                              None \<Rightarrow> Inl TypeError
                            | Some ft \<Rightarrow> mock env l w rt a (getNullableType (ofType ft)) n)
                       | _ \<Rightarrow> Inr (res, n)))
            else (case fieldType of
                    None \<Rightarrow> Inl TypeError
                  | Some ft \<Rightarrow> mockType env (ofType ft) None None rt a n)) of
        Inl e \<Rightarrow> Inl e
      | Inr (v, n') \<Rightarrow>
          (case mockLoop env wrappedFunction rt a fieldType k n' of
             Inl e \<Rightarrow> Inl e
           | Inr (vs, n'') \<Rightarrow> Inr (v # vs, n'')))"
  by pat_completeness auto

termination
  by (relation "measures
     [case_sum (\<lambda>(env, ty, tn, fn, rt, a, n). otsize ty)
        (case_sum (\<lambda>(env, len, w, rt, a, ft, n). otsize ft) (\<lambda>(env, w, rt, a, ft, k, n). otsize ft)),
      case_sum (\<lambda>_. 2) (case_sum (\<lambda>_. 1) (\<lambda>_. 0)),
      case_sum (\<lambda>_. 0) (case_sum (\<lambda>_. 0) (\<lambda>(env, w, rt, a, ft, k, n). k))]")
    (auto simp: otsize_ofType otsize_nullable_ofType otsize_list_elem otsize_union_member
       otsize_interface_member otsize_nullable_less)

declare mockType.simps [simp del] mock.simps [simp del] mockLoop.simps [simp del]

text \<open>
  The existing value of a field, as the first branch of \<open>mockType\<close> computes it from
  \<open>root[fieldName]\<close>: a function is called, and a \<open>MockList\<close> that it returns is
  expanded.
\<close>

definition existingValue :: "env \<Rightarrow> jsval \<Rightarrow> gtype option \<Rightarrow> jsval \<Rightarrow> rargs \<Rightarrow> nat \<Rightarrow> error + (jsval \<times> nat)" where
  "existingValue env x fieldType rt a n =
     (if isFunction x
      then (case callFn env x rt a of
              Inl e \<Rightarrow> Inl e
            | Inr r \<Rightarrow> (case r of MockListV l w \<Rightarrow> mock env l w rt a fieldType n | _ \<Rightarrow> Inr (r, n)))
      else Inr (x, n))"


section \<open>Merging with a real resolution\<close>

text \<open>
  \<open>copyOwnPropsIfNotPresent\<close> and \<open>copyOwnProps\<close>, on the own properties of the
  target: every own property of the source, enumerable or not, is defined on the
  target with the source's descriptor unless the target has one of that name; each
  source is followed along its prototype chain.
\<close>

definition copyOwnPropsIfNotPresent :: "props \<Rightarrow> jsval \<Rightarrow> props" where
  "copyOwnPropsIfNotPresent target source =
     foldl (\<lambda>t (prop, d). if map_of t prop = None then t @ [(prop, d)] else t)
       target (ownProps source)"

definition copyOwnProps :: "jsval \<Rightarrow> jsval list \<Rightarrow> jsval" where
  "copyOwnProps target sources =
     (case target of
        Obj c ps p \<Rightarrow>
          Obj c (foldl (\<lambda>t source. foldl copyOwnPropsIfNotPresent t (protoChain source)) ps sources) p
      | _ \<Rightarrow> target)"

text \<open>The function given to \<open>then\<close> in the composed resolver, on the two settled values.\<close>

definition mergeResolved :: "jsval \<Rightarrow> jsval \<Rightarrow> jsval" where
  "mergeResolved mockedValue resolvedValue =
     (if isObject mockedValue \<and> isObject resolvedValue
      then copyOwnProps emptyObject [resolvedValue, mockedValue]
      else if resolvedValue \<noteq> Undefined then resolvedValue else mockedValue)"

section \<open>The schema and the installed resolvers\<close>

text \<open>
  What a \<open>resolveType\<close> slot of an abstract type can hold: a function of the schema's
  author, with the parameter count it declares (its \<open>length\<close>), or the fallback that
  \<open>assignResolveType\<close> installs, which declares \<open>(data, context, info)\<close>.
\<close>

datatype resolveFn =
    ResolveTypeFn fid nat
  | FallbackResolveType

fun resolveFnLength :: "resolveFn \<Rightarrow> nat" where
  "resolveFnLength (ResolveTypeFn f k) = k"
| "resolveFnLength FallbackResolveType = 3"

text \<open>
  What a \<open>resolve\<close> slot of a field can hold: a function that was there before, or one
  of the three closures that \<open>addMockFunctionsToSchema\<close> builds: \<open>mockType(field.type,
  typeName, fieldName)\<close>, the resolver of a root field with a root mock (which keeps
  \<open>rootMock\<close>), and the composition of a mock resolver with the old one.
\<close>

datatype resolver =
    UserResolve fid
  | MockTypeResolve gtype "string option" "string option"
  | RootMockResolve jsval gtype string string
  | PreserveResolve resolver resolver

text \<open>
  The schema: the type map in key order, the fields of each object type (name and
  type), the root types, the possible types of each interface, and the two kinds
  of slot that the setup writes, by type name and by type and field name.
\<close>

record gschema =
  typeMap :: "(string \<times> gtype) list"
  getFields :: "string \<Rightarrow> (string \<times> gtype) list"
  queryType :: "string option"
  mutationType :: "string option"
  possibleTypes :: "string \<Rightarrow> string list"
  resolveType :: "string \<Rightarrow> resolveFn option"
  resolve :: "string \<times> string \<Rightarrow> resolver option"

subsection \<open>Running a resolver\<close>

text \<open>
  The root value reaches a resolver by value when it is a primitive and by reference
  when it is an object; only then can the caller see an assignment to it. The heap
  holds the objects that are passed by reference, an address being an index.
\<close>

datatype rootArg = ByValue jsval | ByRef nat

type_synonym heap = "jsval list"

definition deref :: "heap \<Rightarrow> rootArg \<Rightarrow> jsval" where
  "deref h r =
     (case r of ByValue v \<Rightarrow> v
      | ByRef p \<Rightarrow> (if p < length h then h ! p else Undefined))"

text \<open>\<open>root || {}\<close>: the root itself when it is truthy, a fresh empty object otherwise.\<close>

definition rootOrEmpty :: "heap \<Rightarrow> rootArg \<Rightarrow> heap \<times> rootArg" where
  "rootOrEmpty h r =
     (if truthy (deref h r) then (h, r) else (h @ [emptyObject], ByRef (length h)))"

text \<open>
  \<open>updatedRoot[fieldName] = v\<close>. Assigning to a property of a primitive, of an array
  or of an object of a built-in class is outside the model.
\<close>

definition assignField :: "heap \<Rightarrow> rootArg \<Rightarrow> string \<Rightarrow> jsval \<Rightarrow> error + heap" where
  "assignField h r k v =
     (case r of
        ByValue x \<Rightarrow> Inl Unmodelled
      | ByRef p \<Rightarrow>
          (case deref h r of
             Obj c ps pr \<Rightarrow> Inr (h[p := Obj c (setProp ps k v) pr])
           | _ \<Rightarrow> Inl Unmodelled))"

text \<open>
  A call of an installed resolver with the root, the other arguments and the count
  of draws; it gives the settled value, the heap and the count after it, or throws.
  The composed resolver calls the mock resolver, then the old one, and merges.
\<close>

fun runResolver :: "env \<Rightarrow> resolver \<Rightarrow> heap \<Rightarrow> rootArg \<Rightarrow> rargs \<Rightarrow> nat \<Rightarrow> error + (jsval \<times> heap \<times> nat)" where
  "runResolver env (UserResolve f) h r a n =
     (case call_fn env f (deref h r) a of Inl e \<Rightarrow> Inl e | Inr v \<Rightarrow> Inr (v, h, n))"
| "runResolver env (MockTypeResolve ty typeName fieldName) h r a n =
     (case mockType env (Some ty) typeName fieldName (deref h r) a n of
        Inl e \<Rightarrow> Inl e
      | Inr (v, n') \<Rightarrow> Inr (v, h, n'))"
| "runResolver env (RootMockResolve rootMock ty typeName fieldName) h r a n =
     (case rootOrEmpty h r of
        (h1, updatedRoot) \<Rightarrow>
          (case callFn env rootMock (deref h r) a of
             Inl e \<Rightarrow> Inl e
           | Inr m \<Rightarrow>
               (case getPropChecked m fieldName of
                  Inl e \<Rightarrow> Inl e
                | Inr v \<Rightarrow>
                    (case assignField h1 updatedRoot fieldName v of
                       Inl e \<Rightarrow> Inl e
                     | Inr h2 \<Rightarrow>
                         (case mockType env (Some ty) (Some typeName) (Some fieldName)
                                 (deref h2 updatedRoot) a n of
                            Inl e \<Rightarrow> Inl e
                          | Inr (res, n') \<Rightarrow> Inr (res, h2, n'))))))"
| "runResolver env (PreserveResolve mockResolver oldResolver) h r a n =
     (case runResolver env mockResolver h r a n of
        Inl e \<Rightarrow> Inl e
      | Inr (mockedValue, h1, n1) \<Rightarrow>
          (case runResolver env oldResolver h1 r a n1 of
             Inl e \<Rightarrow> Inl e
           | Inr (resolvedValue, h2, n2) \<Rightarrow> Inr (mergeResolved mockedValue resolvedValue, h2, n2)))"

text \<open>
  The fallback \<open>resolveType\<close>: \<open>info.schema.getType(data.typename)\<close>. The type map is
  read at the key that the value of \<open>typename\<close> turns into; a type object prints as its
  name.
\<close>

fun propertyKey :: "jsval \<Rightarrow> string option" where
  "propertyKey (Str s) = Some s"
| "propertyKey (TypeObj n) = Some n"
| "propertyKey Undefined = Some ''undefined''"
| "propertyKey Null = Some ''null''"
| "propertyKey v = None"

definition getType :: "gschema \<Rightarrow> string \<Rightarrow> gtype option" where
  "getType schema name = map_of (typeMap schema) name"

definition fallbackResolveType :: "gschema \<Rightarrow> jsval \<Rightarrow> error + gtype option" where
  "fallbackResolveType schema data =
     (case getPropChecked data ''typename'' of
        Inl e \<Rightarrow> Inl e
      | Inr t \<Rightarrow>
          (case propertyKey t of None \<Rightarrow> Inl Unmodelled | Some k \<Rightarrow> Inr (getType schema k)))"

section \<open>Attaching the mocks to a schema\<close>

text \<open>\<open>Map.set\<close> on a map kept in insertion order.\<close>

fun mapSet :: "(string \<times> 'a) list \<Rightarrow> string \<Rightarrow> 'a \<Rightarrow> (string \<times> 'a) list" where
  "mapSet [] k v = [(k, v)]"
| "mapSet ((k', x) # m) k v = (if k' = k then (k, v) # m else (k', x) # mapSet m k v)"

text \<open>
  \<open>Object.keys(mocks).forEach((typeName) => mockFunctionMap.set(typeName, mocks[typeName]))\<close>.
\<close>

definition buildMockFunctionMap :: "jsval \<Rightarrow> (string \<times> jsval) list" where
  "buildMockFunctionMap mocks =
     foldl (\<lambda>m typeName. mapSet m typeName (getProp mocks typeName)) [] (map fst (enumProps mocks))"

text \<open>The environment that the closures built for a schema and a registry see.\<close>

definition closure :: "env \<Rightarrow> gschema \<Rightarrow> (string \<times> jsval) list \<Rightarrow> env" where
  "closure env schema m = env\<lparr>getPossibleTypes := possibleTypes schema, mockFunctionMap := m\<rparr>"

definition getResolveType :: "gschema \<Rightarrow> gtype \<Rightarrow> resolveFn option" where
  "getResolveType schema namedFieldType =
     (case namedFieldType of
        InterfaceT nm \<Rightarrow> resolveType schema nm
      | UnionT nm ms \<Rightarrow> resolveType schema nm
      | _ \<Rightarrow> None)"

definition setResolveType :: "gschema \<Rightarrow> string \<Rightarrow> resolveFn \<Rightarrow> gschema" where
  "setResolveType schema nm f = schema\<lparr>resolveType := (resolveType schema)(nm := Some f)\<rparr>"

definition assignResolveType :: "bool \<Rightarrow> gschema \<Rightarrow> gtype \<Rightarrow> gschema" where
  "assignResolveType preserveResolvers schema ty =
     (let fieldType = getNullableType (Some ty);
          namedFieldType = getNamedType fieldType
      in case namedFieldType of
           None \<Rightarrow> schema
         | Some nt \<Rightarrow>
             (let oldResolveType = getResolveType schema nt
              in if preserveResolvers \<and>
                    (case oldResolveType of None \<Rightarrow> False | Some f \<Rightarrow> resolveFnLength f \<noteq> 0)
                 then schema
                 else (case nt of
                         UnionT nm ms \<Rightarrow> setResolveType schema nm FallbackResolveType
                       | InterfaceT nm \<Rightarrow> setResolveType schema nm FallbackResolveType
                       | _ \<Rightarrow> schema)))"

text \<open>
  The fields that \<open>forEachField\<close> visits, in order, each with the key of its type in
  the type map, its name and its type: the fields of the object types whose name
  does not start with two underscores.
\<close>

fun isObjectType :: "gtype \<Rightarrow> bool" where
  "isObjectType (ObjectT nm) = True"
| "isObjectType t = False"

definition fieldsOf :: "gschema \<Rightarrow> (string \<times> string \<times> gtype) list" where
  "fieldsOf schema =
     concat (map (\<lambda>(typeName, ty).
        if take 2 (orUndefined (gtypeName (unwrapType ty))) \<noteq> ''__'' \<and> isObjectType ty
        then map (\<lambda>(fieldName, ftype). (typeName, fieldName, ftype)) (getFields schema typeName)
        else []) (typeMap schema))"

text \<open>
  The function that \<open>addMockFunctionsToSchema\<close> gives to \<open>forEachField\<close>, on one field.
  It gives the schema as it has left it and, when it threw, the error.
\<close>

definition installField :: "env \<Rightarrow> bool \<Rightarrow> gschema \<Rightarrow> string \<times> string \<times> gtype \<Rightarrow> error option \<times> gschema" where
  "installField env preserveResolvers schema0 f =
     (case f of (typeName, fieldName, ftype) \<Rightarrow>
        (let schema = assignResolveType preserveResolvers schema0 ftype;
             isOnQueryType = (queryType schema = Some typeName);
             isOnMutationType = (mutationType schema = Some typeName)
         in case (if isOnQueryType \<or> isOnMutationType then
                    (case lookupMock env (Some typeName) of
                       None \<Rightarrow> Inr None
                     | Some rootMock \<Rightarrow>
                         (case callFn env rootMock Undefined (emptyObject, emptyObject, emptyObject) of
                            Inl e \<Rightarrow> Inl e
                          | Inr m \<Rightarrow>
                              (case getPropChecked m fieldName of
                                 Inl e \<Rightarrow> Inl e
                               | Inr v \<Rightarrow>
                                   (if truthy v
                                    then Inr (Some (RootMockResolve rootMock ftype typeName fieldName))
                                    else Inr None))))
                  else Inr None) of
              Inl e \<Rightarrow> (Some e, schema)
            | Inr special \<Rightarrow>
                (let mockResolver =
                       (case special of
                          None \<Rightarrow> MockTypeResolve ftype (Some typeName) (Some fieldName)
                        | Some r \<Rightarrow> r)
                 in (None,
                     (case (if preserveResolvers then resolve schema (typeName, fieldName) else None) of
                        None \<Rightarrow>
                          schema\<lparr>resolve := (resolve schema)((typeName, fieldName) := Some mockResolver)\<rparr>
                      | Some oldResolver \<Rightarrow>
                          schema\<lparr>resolve := (resolve schema)
                            ((typeName, fieldName) := Some (PreserveResolve mockResolver oldResolver))\<rparr>)))))"

fun visitFields :: "(gschema \<Rightarrow> string \<times> string \<times> gtype \<Rightarrow> error option \<times> gschema) \<Rightarrow>
    (string \<times> string \<times> gtype) list \<Rightarrow> gschema \<Rightarrow> error option \<times> gschema" where
  "visitFields fn [] schema = (None, schema)"
| "visitFields fn (f # fs) schema =
     (case fn schema f of
        (Some e, schema') \<Rightarrow> (Some e, schema')
      | (None, schema') \<Rightarrow> visitFields fn fs schema')"

definition forEachField :: "gschema \<Rightarrow> (gschema \<Rightarrow> string \<times> string \<times> gtype \<Rightarrow> error option \<times> gschema) \<Rightarrow>
    error option \<times> gschema" where
  "forEachField schema fn = visitFields fn (fieldsOf schema) schema"

text \<open>
  \<open>addMockFunctionsToSchema({ schema, mocks = {}, preserveResolvers = false })\<close>. It
  returns nothing; the result here is the error it threw, if any, and the schema as
  it is afterwards.
\<close>

definition addMockFunctionsToSchema :: "env \<Rightarrow> gschema option \<Rightarrow> jsval \<Rightarrow> bool \<Rightarrow> error option \<times> gschema option" where
  "addMockFunctionsToSchema env schemaArg mocksArg preserveResolvers =
     (case schemaArg of
        None \<Rightarrow> (Some (Error ''Must provide schema to mock''), None)
      | Some schema \<Rightarrow>
          (let mocks = (if mocksArg = Undefined then emptyObject else mocksArg)
           in if \<not> isObject mocks then (Some (Error ''mocks must be of type Object''), Some schema)
              else
                (let m = buildMockFunctionMap mocks
                 in case find (\<lambda>(mockTypeName, mockFunction). \<not> isFunction mockFunction) m of
                      Some (mockTypeName, mockFunction) \<Rightarrow>
                        (Some (Error (''mockFunctionMap['' @ mockTypeName @ ''] must be a function'')),
                         Some schema)
                    | None \<Rightarrow>
                        (case forEachField schema (installField (closure env schema m) preserveResolvers) of
                           (e, schema') \<Rightarrow> (e, Some schema')))))"

text \<open>
  For the statements about the \<open>resolveType\<close> slots: the name of the abstract type
  that a field type names, if it names one; the abstract types that the types of the
  visited fields name; whether an old \<open>resolveType\<close> counts as customized (it is
  there and declares a parameter); and the slot that the setup leaves for an abstract
  type whose slot it has looked at.
\<close>

definition abstractName :: "gtype \<Rightarrow> string option" where
  "abstractName ty =
     (case unwrapType ty of UnionT nm ms \<Rightarrow> Some nm | InterfaceT nm \<Rightarrow> Some nm | _ \<Rightarrow> None)"

definition abstractFieldTypes :: "gschema \<Rightarrow> string list" where
  "abstractFieldTypes schema = List.map_filter (\<lambda>(typeName, fieldName, ftype). abstractName ftype) (fieldsOf schema)"

definition isCustomized :: "resolveFn option \<Rightarrow> bool" where
  "isCustomized old = (case old of None \<Rightarrow> False | Some f \<Rightarrow> resolveFnLength f \<noteq> 0)"

definition expectedResolveType :: "bool \<Rightarrow> resolveFn option \<Rightarrow> resolveFn option" where
  "expectedResolveType preserveResolvers old =
     (if preserveResolvers \<and> isCustomized old then old else Some FallbackResolveType)"

section \<open>Sample data\<close>

text \<open>
  A small environment for the concrete cases below. Its functions are named after
  what they return; the first draw of \<open>Math.random()\<close> is 0, every later one 1/2.
\<close>

definition funcObj :: "fid \<Rightarrow> jsval" where
  "funcObj name = Obj (Some name) [] Null"

definition sampleEnv :: env where
  "sampleEnv = \<lparr>call_fn = (\<lambda>f rt a.
        if f = ''const33'' then Inr (Num 33)
        else if f = ''returnsNull'' then Inr Null
        else if f = ''Bird'' then Inr (literal [(''returnInt'', Num 12), (''returnString'', Str ''woot!?'')])
        else if f = ''returnInt54321'' then Inr (literal [(''returnInt'', Num 54321)])
        else if f = ''hello'' then Inr (Str ''hello'')
        else if f = ''RootQuery''
          then Inr (literal [(''returnString'', funcObj ''hello''), (''returnInt'', Num 0)])
        else Inl TypeError),
     math_random = (\<lambda>n. if n = 0 then 0 else 1 / 2),
     uuid_v4 = (\<lambda>n. ''00000000-0000-4000-8000-000000000000''),
     getPossibleTypes = (\<lambda>nm. []),
     mockFunctionMap = []\<rparr>"

definition rootEnv :: env where
  "rootEnv = sampleEnv\<lparr>mockFunctionMap := [(''RootQuery'', funcObj ''RootQuery'')]\<rparr>"

text \<open>A registry with a factory for the object type \<open>Bird\<close>.\<close>

definition birdEnv :: env where
  "birdEnv = sampleEnv\<lparr>mockFunctionMap := [(''Bird'', funcObj ''Bird'')]\<rparr>"

text \<open>A registry whose factory for \<open>Bird\<close> returns \<open>null\<close>.\<close>

definition nullBirdEnv :: env where
  "nullBirdEnv = sampleEnv\<lparr>mockFunctionMap := [(''Bird'', funcObj ''returnsNull'')]\<rparr>"


text \<open>
  A schema after the one of the tests: a root query type, an object type, a union
  whose \<open>resolveType\<close> declares no parameter, an interface whose \<open>resolveType\<close>
  declares three, an interface that no field returns, and an introspection type.
\<close>

definition sampleSchema :: gschema where
  "sampleSchema = \<lparr>
     typeMap = [(''RootQuery'', ObjectT ''RootQuery''), (''Bird'', ObjectT ''Bird''),
       (''BirdsAndBees'', UnionT ''BirdsAndBees'' [''Bird'', ''Bee'']), (''Flying'', InterfaceT ''Flying''),
       (''Node'', InterfaceT ''Node''), (''MissingMockType'', ScalarT ''MissingMockType''),
       (''__Type'', ObjectT ''__Type'')],
     getFields = (\<lambda>typeName.
       if typeName = ''RootQuery''
         then [(''returnInt'', ScalarT ''Int''), (''returnMockError'', ScalarT ''MissingMockType''),
               (''returnBirdsAndBees'', ListT (UnionT ''BirdsAndBees'' [''Bird'', ''Bee''])),
               (''returnFlying'', NonNullT (InterfaceT ''Flying''))]
       else if typeName = ''Bird'' then [(''returnInt'', ScalarT ''Int'')]
       else if typeName = ''__Type'' then [(''name'', ScalarT ''String'')]
       else []),
     queryType = Some ''RootQuery'',
     mutationType = None,
     possibleTypes = (\<lambda>nm. if nm = ''Flying'' then [''Bird''] else []),
     resolveType = (\<lambda>nm.
       if nm = ''BirdsAndBees'' then Some (ResolveTypeFn ''cannotExecuteSchema'' 0)
       else if nm = ''Flying'' then Some (ResolveTypeFn ''resolveFlying'' 3)
       else None),
     resolve = (\<lambda>k. if k = (''Bird'', ''returnInt'') then Some (UserResolve ''const33'') else None)\<rparr>"

definition noArgs :: rargs where
  "noArgs = (emptyObject, emptyObject, emptyObject)"

section \<open>Installing a resolver for a field\<close>

text \<open>
  \<open>assignResolveType\<close> writes \<open>resolveType\<close> slots only. The function given to
  \<open>forEachField\<close> throws exactly what the probe of a root mock throws, and for a field
  whose parent type is not a root type with a registry entry it makes no call at all.
\<close>

lemma roots_assignResolveType:
  "queryType (assignResolveType p schema ftype) = queryType schema
   \<and> mutationType (assignResolveType p schema ftype) = mutationType schema"
  by (simp add: assignResolveType_def Let_def setResolveType_def split: option.splits gtype.splits)

lemma resolve_assignResolveType: "resolve (assignResolveType p schema ftype) = resolve schema"
  by (simp add: assignResolveType_def Let_def setResolveType_def split: option.splits gtype.splits)


lemma installField_plain:
  assumes "\<not> (queryType schema = Some tn \<or> mutationType schema = Some tn) \<or> lookupMock env (Some tn) = None"
  shows "installField env p schema (tn, fn, ftype) =
     (None, (assignResolveType p schema ftype)\<lparr>resolve := (resolve schema)((tn, fn) :=
        Some (case (if p then resolve schema (tn, fn) else None) of
                None \<Rightarrow> MockTypeResolve ftype (Some tn) (Some fn)
              | Some oldResolver \<Rightarrow> PreserveResolve (MockTypeResolve ftype (Some tn) (Some fn)) oldResolver))\<rparr>)"
  using assms
  by (auto simp: installField_def Let_def roots_assignResolveType resolve_assignResolveType split: option.splits)

section \<open>Properties of MockList\<close>

lemma newArray_neg: "x < 0 \<Longrightarrow> newArray x = Inl RangeError"
  by (simp add: newArray_def)

lemma randint_floor:
  "randint (of_int lo) (of_int hi) r = of_int (\<lfloor>r * of_int (hi - lo + 1)\<rfloor> + lo)"
proof -
  have "r * ((of_int hi - of_int lo) + 1) + of_int lo = r * of_int (hi - lo + 1) + of_int lo"
    by simp
  then show ?thesis
    unfolding randint_def by (simp only: floor_add_int)
qed

lemma randint_range:
  assumes "lo \<le> hi" "0 \<le> r" "r < 1"
  shows "\<exists>L. randint (of_int lo) (of_int hi) r = of_int L \<and> lo \<le> L \<and> L \<le> hi"
proof -
  let ?m = "of_int (hi - lo + 1) :: real"
  have pos: "0 < ?m" using assms by simp
  have "0 \<le> r * ?m" using assms pos by simp
  then have a: "0 \<le> \<lfloor>r * ?m\<rfloor>" by simp
  have "r * ?m < ?m" using assms pos by simp
  then have "\<lfloor>r * ?m\<rfloor> < hi - lo + 1" by (metis floor_less_iff)
  with a show ?thesis unfolding randint_floor by (intro exI [of _ "\<lfloor>r * ?m\<rfloor> + lo"]) simp
qed

text \<open>
  C10. The constructor of \<open>MockList\<close> never looks at the length: whatever the length,
  it succeeds unless a second argument is given that is not a function, which is its
  only error. A negative length, or a pair of bounds that are both negative, is
  found only when \<open>mock\<close> builds the array, as a \<open>RangeError\<close>.
\<close>

theorem MockList_never_validates_length:
  "MockList len w =
     (if w = Undefined then Inr (MockListV len None)
      else if isFunction w then Inr (MockListV len (Some w))
      else Inl (Error ''Second argument to MockList must be a function or undefined''))
   \<and> (x < 0 \<longrightarrow> mock env (LenNum x) wfn rt a ft n = Inl RangeError)
   \<and> (lo \<le> hi \<and> hi < 0 \<and> 0 \<le> math_random env n \<and> math_random env n < 1 \<longrightarrow>
        mock env (LenArr [of_int lo, of_int hi]) wfn rt a ft n = Inl RangeError)"
proof (intro conjI impI)
  show "MockList len w =
     (if w = Undefined then Inr (MockListV len None)
      else if isFunction w then Inr (MockListV len (Some w))
      else Inl (Error ''Second argument to MockList must be a function or undefined''))"
    by (simp add: MockList_def)
next
  assume "x < 0"
  then show "mock env (LenNum x) wfn rt a ft n = Inl RangeError"
    by (simp add: mock.simps mockLength_def newArray_neg)
next
  assume h: "lo \<le> hi \<and> hi < 0 \<and> 0 \<le> math_random env n \<and> math_random env n < 1"
  then obtain L where L: "randint (of_int lo) (of_int hi) (math_random env n) = of_int L" "L \<le> hi"
    using randint_range [of lo hi "math_random env n"] by blast
  with h have "(of_int L :: real) < 0" by simp
  then show "mock env (LenArr [of_int lo, of_int hi]) wfn rt a ft n = Inl RangeError"
    using L(1) by (simp add: mock.simps mockLength_def newArray_neg)
qed

theorem MockList_never_validates_length_witness:
  "MockList (LenNum (- 1)) Undefined = Inr (MockListV (LenNum (- 1)) None)
   \<and> mock sampleEnv (LenNum (- 1)) None Undefined noArgs (Some (ListT (ScalarT ''Int''))) 0 = Inl RangeError
   \<and> MockList (LenArr [- 3, - 1]) Undefined = Inr (MockListV (LenArr [- 3, - 1]) None)
   \<and> mock sampleEnv (LenArr [- 3, - 1]) None Undefined noArgs (Some (ListT (ScalarT ''Int''))) 0 = Inl RangeError"
  using MockList_never_validates_length [of "LenNum (- 1)" Undefined "- 1" sampleEnv None Undefined noArgs
      "Some (ListT (ScalarT ''Int''))" 0 "- 3" "- 1"]
    MockList_never_validates_length [of "LenArr [- 3, - 1]" Undefined "- 1" sampleEnv None Undefined noArgs
      "Some (ListT (ScalarT ''Int''))" 0 "- 3" "- 1"]
  by (simp add: sampleEnv_def)

subsection \<open>The length drawn in doubles\<close>

lemma toDouble_eval:
  assumes "2 powr of_int j \<le> \<bar>x\<bar>" "\<bar>x\<bar> < 2 powr of_int (j + 1)"
  shows "toDouble x = of_int (roundEven (x / 2 powr of_int (j - 52))) * 2 powr of_int (j - 52)"
proof -
  have "(0::real) < 2 powr of_int j"
    by simp
  with assms(1) have "0 < \<bar>x\<bar>"
    by linarith
  then have nz: "x \<noteq> 0" and e: "\<lfloor>log 2 \<bar>x\<bar>\<rfloor> = j"
    using floor_log_eq_powr_iff [of "\<bar>x\<bar>" 2 j] assms by auto
  show ?thesis
    using nz unfolding toDouble_def Let_def e by simp
qed

lemma toDouble_10: "toDouble 10 = 10"
  using toDouble_eval [of 3 10] by (simp add: roundEven_def powr_neg_numeral powr_numeral)

lemma toDouble_11: "toDouble 11 = 11"
  using toDouble_eval [of 3 11] by (simp add: roundEven_def powr_neg_numeral powr_numeral)

lemma toDouble_product: "toDouble ((1 - 1 / 2 ^ 52) * 11) = 11 - 1 / 2 ^ 49"
  using toDouble_eval [of 3 "(1 - 1 / 2 ^ 52) * 11"] by (simp add: roundEven_def powr_neg_numeral powr_numeral)

lemma toDouble_sum: "toDouble (11 - 1 / 2 ^ 49 + 10) = 21"
  using toDouble_eval [of 4 "11 - 1 / 2 ^ 49 + 10"] by (simp add: roundEven_def powr_neg_numeral powr_numeral)

lemma toDouble_draw: "toDouble (1 - 1 / 2 ^ 52) = 1 - 1 / 2 ^ 52"
  using toDouble_eval [of "- 1" "1 - 1 / 2 ^ 52"] by (simp add: roundEven_def powr_neg_numeral powr_numeral)

lemma toDouble_1: "toDouble 1 = 1"
  using toDouble_eval [of 0 1] by (simp add: roundEven_def powr_neg_numeral powr_numeral)

lemma toDouble_sum3: "toDouble (1 - 1 / 2 ^ 52 + 2) = 3"
  using toDouble_eval [of 1 "1 - 1 / 2 ^ 52 + 2"] by (simp add: roundEven_def powr_neg_numeral powr_numeral)

lemma toDouble_0: "toDouble 0 = 0"
  by (simp add: toDouble_def)

text \<open>
  C4. For the pair \<open>[10, 20]\<close> and the draw \<open>1 - 2^-52\<close>, the largest double below 1,
  \<open>randint\<close> as the source computes it gives 21, one more than the upper bound, so
  the array that \<open>mock\<close> builds has 21 elements; for the pair \<open>[2, 2]\<close> it gives 3. The
  product \<open>r * 11\<close> is rounded to \<open>11 - 2^-49\<close>, and the sum with 10 lies halfway
  between two doubles and is rounded to 21 before the floor is taken. Over the exact
  reals the same expression gives 20.
\<close>

theorem randint_exceeds_high:
  "randintDouble 10 20 (1 - 1 / 2 ^ 52) = 21
   \<and> randintDouble 2 2 (1 - 1 / 2 ^ 52) = 3
   \<and> toDouble (1 - 1 / 2 ^ 52) = 1 - 1 / 2 ^ 52
   \<and> (0::real) \<le> 1 - 1 / 2 ^ 52 \<and> (1::real) - 1 / 2 ^ 52 < 1
   \<and> randint 10 20 (1 - 1 / 2 ^ 52) = 20
   \<and> newArray (randintDouble 10 20 (1 - 1 / 2 ^ 52)) = Inr 21"
proof (intro conjI)
  have a: "toDouble (20 - 10) = 10"
    using toDouble_10 by simp
  have b: "toDouble (toDouble (20 - 10) + 1) = 11"
    unfolding a using toDouble_11 by simp
  have c: "toDouble ((1 - 1 / 2 ^ 52) * toDouble (toDouble (20 - 10) + 1)) = 11 - 1 / 2 ^ 49"
    unfolding b by (rule toDouble_product)
  have d: "toDouble (toDouble ((1 - 1 / 2 ^ 52) * toDouble (toDouble (20 - 10) + 1)) + 10) = 21"
    unfolding c by (rule toDouble_sum)
  show r: "randintDouble 10 20 (1 - 1 / 2 ^ 52) = 21"
    unfolding randintDouble_def d by simp
  show "newArray (randintDouble 10 20 (1 - 1 / 2 ^ 52)) = Inr 21"
    unfolding r by (simp add: newArray_def)
  have a': "toDouble (2 - 2) = 0"
    using toDouble_0 by simp
  have b': "toDouble (toDouble (2 - 2) + 1) = 1"
    unfolding a' using toDouble_1 by simp
  have c': "toDouble ((1 - 1 / 2 ^ 52) * toDouble (toDouble (2 - 2) + 1)) = 1 - 1 / 2 ^ 52"
    unfolding b' using toDouble_draw by simp
  have d': "toDouble (toDouble ((1 - 1 / 2 ^ 52) * toDouble (toDouble (2 - 2) + 1)) + 2) = 3"
    unfolding c' by (rule toDouble_sum3)
  show "randintDouble 2 2 (1 - 1 / 2 ^ 52) = 3"
    unfolding randintDouble_def d' by simp
  show "toDouble (1 - 1 / 2 ^ 52) = 1 - 1 / 2 ^ 52"
    by (rule toDouble_draw)
  show "(0::real) \<le> 1 - 1 / 2 ^ 52" "(1::real) - 1 / 2 ^ 52 < 1"
    by simp_all
  show "randint 10 20 (1 - 1 / 2 ^ 52) = 20"
    by (simp add: randint_def)
qed

section \<open>Properties of the mock value resolver\<close>

text \<open>
  C6. When the root has no value for the field and the type, with its non-null
  wrapper taken off, is a list, the resolver calls itself on the element type twice,
  the second call starting from the count of draws that the first one left, and
  returns the array of the two results; an error of either call is the error of the
  resolver. So whatever it returns is an array of exactly two elements, each the
  result of its own call. No registry entry is looked up on this path.
\<close>

theorem mockType_list_default:
  assumes "\<not> (truthy rt \<and> getProp rt (orUndefined fieldName) \<noteq> Undefined)"
    and "getNullableType ty = Some (ListT t)"
  shows "mockType env ty typeName fieldName rt a n =
           (case mockType env (Some t) None None rt a n of
              Inl e \<Rightarrow> Inl e
            | Inr (v1, n1) \<Rightarrow>
                (case mockType env (Some t) None None rt a n1 of
                   Inl e \<Rightarrow> Inl e
                 | Inr (v2, n2) \<Rightarrow> Inr (Arr [v1, v2], n2)))
         \<and> (mockType env ty typeName fieldName rt a n = Inr (v, n') \<longrightarrow>
              (\<exists>v1 n1 v2. mockType env (Some t) None None rt a n = Inr (v1, n1)
                 \<and> mockType env (Some t) None None rt a n1 = Inr (v2, n')
                 \<and> v = Arr [v1, v2]))"
proof -
  have eq: "mockType env ty typeName fieldName rt a n =
           (case mockType env (Some t) None None rt a n of
              Inl e \<Rightarrow> Inl e
            | Inr (v1, n1) \<Rightarrow>
                (case mockType env (Some t) None None rt a n1 of
                   Inl e \<Rightarrow> Inl e
                 | Inr (v2, n2) \<Rightarrow> Inr (Arr [v1, v2], n2)))"
    using assms by (cases "truthy rt"; subst mockType.simps; simp add: Let_def)
  show ?thesis
    unfolding eq by (auto split: sum.splits prod.splits)
qed

theorem mockType_list_default_witness:
  "mockType sampleEnv (Some (NonNullT (ListT (ScalarT ''Int'')))) (Some ''RootQuery'') (Some ''returnListOfInt'')
      emptyObject noArgs 0 = Inr (Arr [Num (- 100), Num 0], 2)"
proof -
  have a: "\<not> (truthy emptyObject \<and> getProp emptyObject (orUndefined (Some ''returnListOfInt'')) \<noteq> Undefined)"
    by (simp add: emptyObject_def literal_def objectPrototype_def builtin_def getProp_def
        lookupChain_def chainProps_def orUndefined_def)
  have b: "getNullableType (Some (NonNullT (ListT (ScalarT ''Int'')))) = Some (ListT (ScalarT ''Int''))"
    by simp
  have c: "\<not> (truthy emptyObject \<and> getProp emptyObject (orUndefined None) \<noteq> Undefined)"
    by (simp add: emptyObject_def literal_def objectPrototype_def builtin_def getProp_def
        lookupChain_def chainProps_def orUndefined_def)
  have e: "mockType sampleEnv (Some (ScalarT ''Int'')) None None emptyObject noArgs k
             = Inr (Num (of_int \<lfloor>math_random sampleEnv k * 200 + 1 / 2\<rfloor> - 100), Suc k)" for k
    using c by (subst mockType.simps)
      (simp add: Let_def getNamedType_def lookupMock_def defaultMock_def sampleEnv_def)
  from mockType_list_default [OF a b, of sampleEnv "Some ''RootQuery''" noArgs 0 Undefined 0]
  show ?thesis
    by (simp add: e) (simp add: sampleEnv_def)
qed




section \<open>Merging an existing value with the registry\<close>

text \<open>
  C1. The root \<open>{returnObject: {returnInt: 1}}\<close> is not \<open>null\<close>, it has a record-shaped
  value at \<open>returnObject\<close>, and the named type \<open>Bird\<close> of the field has a registry
  entry; the entry returns \<open>null\<close>. The resolved result is not the union of the claim,
  which is \<open>{returnInt: 1}\<close>: \<open>mergeMocks\<close> hands the \<open>null\<close> to \<open>Object.assign\<close> as
  its target and resolution throws a \<open>TypeError\<close>. Without an existing value the same
  entry is called by the registry branch of \<open>mockType\<close>, which returns the \<open>null\<close> as
  it is; and with an entry that returns an object the existing value
  \<open>{returnInt: 54321}\<close> is merged as the claim says, its key overriding the factory's
  and the factory's other key added.
\<close>

theorem mergeMocks_null_factory_throws:
  "mockType nullBirdEnv (Some (ObjectT ''Bird'')) (Some ''RootQuery'') (Some ''returnObject'')
      (literal [(''returnObject'', literal [(''returnInt'', Num 1)])]) noArgs 0 = Inl TypeError
   \<and> literal [(''returnObject'', literal [(''returnInt'', Num 1)])] \<noteq> Null
   \<and> getProp (literal [(''returnObject'', literal [(''returnInt'', Num 1)])]) ''returnObject''
        = literal [(''returnInt'', Num 1)]
   \<and> isObject (literal [(''returnInt'', Num 1)])
   \<and> lookupMock nullBirdEnv (Some ''Bird'') = Some (funcObj ''returnsNull'')
   \<and> callFn nullBirdEnv (funcObj ''returnsNull'')
        (literal [(''returnObject'', literal [(''returnInt'', Num 1)])]) noArgs = Inr Null
   \<and> mockType nullBirdEnv (Some (ObjectT ''Bird'')) (Some ''RootQuery'') (Some ''returnObject'')
        emptyObject noArgs 0 = Inr (Null, 0)
   \<and> mockType birdEnv (Some (ObjectT ''Bird'')) (Some ''RootQuery'') (Some ''returnObject'')
        (literal [(''returnObject'', literal [(''returnInt'', Num 54321)])]) noArgs 0
        = Inr (Obj None [(''returnInt'', Num 54321, True), (''returnString'', Str ''woot!?'', True)]
                 objectPrototype, 0)"
  by (simp add: mockType.simps nullBirdEnv_def birdEnv_def sampleEnv_def funcObj_def literal_def
      emptyObject_def objectPrototype_def builtin_def
      getProp_def lookupChain_def chainProps_def orUndefined_def getNamedType_def lookupMock_def
      callFn_def mergeObjects_def assignProps_def enumProps_def Let_def)

section \<open>Properties of the composed resolver\<close>

lemma map_of_copyOwnPropsIfNotPresent:
  "map_of (copyOwnPropsIfNotPresent target source) k =
     (case map_of target k of Some d \<Rightarrow> Some d | None \<Rightarrow> map_of (ownProps source) k)"
proof -
  have "map_of (foldl (\<lambda>t (prop, d). if map_of t prop = None then t @ [(prop, d)] else t) target xs) k =
     (case map_of target k of Some d \<Rightarrow> Some d | None \<Rightarrow> map_of xs k)" for xs
  proof (induction xs arbitrary: target)
    case Nil
    show ?case by (simp split: option.splits)
  next
    case (Cons x xs)
    obtain pk d where x: "x = (pk, d)" by (cases x)
    show ?case
      unfolding x by (simp add: Cons.IH map_add_def split: option.splits)
  qed
  then show ?thesis
    by (simp add: copyOwnPropsIfNotPresent_def)
qed

lemma map_of_copy_chain:
  "map_of (foldl copyOwnPropsIfNotPresent target chain) k =
     (case map_of target k of Some d \<Rightarrow> Some d | None \<Rightarrow> map_of (concat (map ownProps chain)) k)"
proof (induction chain arbitrary: target)
  case Nil
  show ?case by (simp split: option.splits)
next
  case (Cons x chain)
  show ?case
    by (simp add: Cons.IH map_of_copyOwnPropsIfNotPresent map_add_def split: option.splits)
qed

lemma mergeResolved_objects:
  assumes "isObject mv" "isObject rv"
  shows "\<exists>ps. mergeResolved mv rv = Obj None ps objectPrototype
           \<and> (\<forall>k. map_of ps k = (case lookupChain rv k of Some d \<Rightarrow> Some d | None \<Rightarrow> lookupChain mv k))"
  using assms
  by (simp add: mergeResolved_def copyOwnProps_def emptyObject_def literal_def map_of_copy_chain
      lookupChain_def chainProps_def split: option.splits)

text \<open>
  C2. In preserve mode a field that has a resolver gets the composed resolver: the
  installation leaves in the field the composition of the mock resolver with the old
  one, the mock resolver being \<open>mockType(field.type, typeName, fieldName)\<close>, or the
  resolver of a root field when the probe of the root mock finds a truthy entry. The
  composed resolver calls the mock resolver and then the old one, with the same root
  and arguments; for a plain mock resolver and an old resolver \<open>g\<close> these are
  \<open>mockType\<close> on the root and \<open>g\<close> on the root. What either throws, it throws; when
  both return, it returns the merge of the two values. When both are record-shaped
  the merge is a new object that has, for each key, the property (value and
  enumerable flag) that reading the key on the real value finds, on the value itself
  or along its prototype chain, enumerable or not, and otherwise the property that
  reading it on the mock value finds. When they are not both record-shaped the merge
  is the real value unless that is \<open>undefined\<close>; \<open>null\<close> is returned as it is; the
  mock value is the merge only when the real value is \<open>undefined\<close>. The two values
  are the settled ones; the order in which two pending promises settle is not
  modelled.
\<close>

theorem preserve_merges_real_over_mock:
  "(resolve schema (tn, fn) = Some old \<and>
      (\<not> (queryType schema = Some tn \<or> mutationType schema = Some tn) \<or> lookupMock env (Some tn) = None) \<longrightarrow>
      installField env True schema (tn, fn, ftype) =
        (None, (assignResolveType True schema ftype)\<lparr>resolve := (resolve schema)((tn, fn) :=
           Some (PreserveResolve (MockTypeResolve ftype (Some tn) (Some fn)) old))\<rparr>))
   \<and> (resolve schema (tn, fn) = Some old \<and> (queryType schema = Some tn \<or> mutationType schema = Some tn)
        \<and> lookupMock env (Some tn) = Some rootMock
        \<and> callFn env rootMock Undefined (emptyObject, emptyObject, emptyObject) = Inr m
        \<and> getPropChecked m fn = Inr pv \<longrightarrow>
      installField env True schema (tn, fn, ftype) =
        (None, (assignResolveType True schema ftype)\<lparr>resolve := (resolve schema)((tn, fn) :=
           Some (PreserveResolve (if truthy pv then RootMockResolve rootMock ftype tn fn
                                  else MockTypeResolve ftype (Some tn) (Some fn)) old))\<rparr>))
   \<and> runResolver env (PreserveResolve (MockTypeResolve ty typeName fieldName) (UserResolve g)) h r a n =
        (case mockType env (Some ty) typeName fieldName (deref h r) a n of
           Inl e \<Rightarrow> Inl e
         | Inr (mockedValue, n1) \<Rightarrow>
             (case call_fn env g (deref h r) a of
                Inl e \<Rightarrow> Inl e
              | Inr resolvedValue \<Rightarrow> Inr (mergeResolved mockedValue resolvedValue, h, n1)))
   \<and> runResolver env (PreserveResolve mockResolver oldResolver) h r a n =
        (case runResolver env mockResolver h r a n of
           Inl e \<Rightarrow> Inl e
         | Inr (mockedValue, h1, n1) \<Rightarrow>
             (case runResolver env oldResolver h1 r a n1 of
                Inl e \<Rightarrow> Inl e
              | Inr (resolvedValue, h2, n2) \<Rightarrow> Inr (mergeResolved mockedValue resolvedValue, h2, n2)))
   \<and> (isObject mv \<and> isObject rv \<longrightarrow>
        (\<exists>ps. mergeResolved mv rv = Obj None ps objectPrototype
           \<and> (\<forall>k. map_of ps k = (case lookupChain rv k of Some d \<Rightarrow> Some d | None \<Rightarrow> lookupChain mv k))))
   \<and> (\<not> (isObject mv \<and> isObject rv) \<longrightarrow>
        mergeResolved mv rv = (if rv \<noteq> Undefined then rv else mv))"
proof (intro conjI)
  show "resolve schema (tn, fn) = Some old \<and>
      (\<not> (queryType schema = Some tn \<or> mutationType schema = Some tn) \<or> lookupMock env (Some tn) = None) \<longrightarrow>
      installField env True schema (tn, fn, ftype) =
        (None, (assignResolveType True schema ftype)\<lparr>resolve := (resolve schema)((tn, fn) :=
           Some (PreserveResolve (MockTypeResolve ftype (Some tn) (Some fn)) old))\<rparr>)"
    using installField_plain [of schema tn env True fn ftype] by auto
  show "resolve schema (tn, fn) = Some old \<and> (queryType schema = Some tn \<or> mutationType schema = Some tn)
        \<and> lookupMock env (Some tn) = Some rootMock
        \<and> callFn env rootMock Undefined (emptyObject, emptyObject, emptyObject) = Inr m
        \<and> getPropChecked m fn = Inr pv \<longrightarrow>
      installField env True schema (tn, fn, ftype) =
        (None, (assignResolveType True schema ftype)\<lparr>resolve := (resolve schema)((tn, fn) :=
           Some (PreserveResolve (if truthy pv then RootMockResolve rootMock ftype tn fn
                                  else MockTypeResolve ftype (Some tn) (Some fn)) old))\<rparr>)"
    by (auto simp: installField_def Let_def roots_assignResolveType resolve_assignResolveType)
  show "runResolver env (PreserveResolve (MockTypeResolve ty typeName fieldName) (UserResolve g)) h r a n =
        (case mockType env (Some ty) typeName fieldName (deref h r) a n of
           Inl e \<Rightarrow> Inl e
         | Inr (mockedValue, n1) \<Rightarrow>
             (case call_fn env g (deref h r) a of
                Inl e \<Rightarrow> Inl e
              | Inr resolvedValue \<Rightarrow> Inr (mergeResolved mockedValue resolvedValue, h, n1)))"
    by (simp split: sum.splits prod.splits)
  show "runResolver env (PreserveResolve mockResolver oldResolver) h r a n =
        (case runResolver env mockResolver h r a n of
           Inl e \<Rightarrow> Inl e
         | Inr (mockedValue, h1, n1) \<Rightarrow>
             (case runResolver env oldResolver h1 r a n1 of
                Inl e \<Rightarrow> Inl e
              | Inr (resolvedValue, h2, n2) \<Rightarrow> Inr (mergeResolved mockedValue resolvedValue, h2, n2)))"
    by simp
  show "isObject mv \<and> isObject rv \<longrightarrow>
        (\<exists>ps. mergeResolved mv rv = Obj None ps objectPrototype
           \<and> (\<forall>k. map_of ps k = (case lookupChain rv k of Some d \<Rightarrow> Some d | None \<Rightarrow> lookupChain mv k)))"
    using mergeResolved_objects by blast
  show "\<not> (isObject mv \<and> isObject rv) \<longrightarrow>
        mergeResolved mv rv = (if rv \<noteq> Undefined then rv else mv)"
    by (simp add: mergeResolved_def)
qed


theorem preserve_merges_real_over_mock_witness:
  "installField sampleEnv True sampleSchema (''Bird'', ''returnInt'', ScalarT ''Int'') =
     (None, sampleSchema\<lparr>resolve := (resolve sampleSchema)((''Bird'', ''returnInt'') :=
        Some (PreserveResolve (MockTypeResolve (ScalarT ''Int'') (Some ''Bird'') (Some ''returnInt''))
                (UserResolve ''const33'')))\<rparr>)
   \<and> runResolver sampleEnv
        (PreserveResolve (MockTypeResolve (ScalarT ''Int'') (Some ''Bird'') (Some ''returnInt''))
           (UserResolve ''const33'')) [] (ByValue emptyObject) noArgs 0 = Inr (Num 33, [], 1)
   \<and> resolve (snd (installField rootEnv True
          (sampleSchema\<lparr>resolve := (resolve sampleSchema)((''RootQuery'', ''returnString'') := Some (UserResolve ''hello''))\<rparr>)
          (''RootQuery'', ''returnString'', ScalarT ''String''))) (''RootQuery'', ''returnString'')
       = Some (PreserveResolve (RootMockResolve (funcObj ''RootQuery'') (ScalarT ''String'') ''RootQuery'' ''returnString'')
                 (UserResolve ''hello''))
   \<and> (\<exists>ps. runResolver birdEnv
              (PreserveResolve (MockTypeResolve (ObjectT ''Bird'') (Some ''RootQuery'') (Some ''returnObject''))
                 (UserResolve ''returnInt54321'')) [] (ByValue emptyObject) noArgs 0
            = Inr (Obj None ps objectPrototype, [], 0)
        \<and> map_of ps ''returnInt'' = Some (Num 54321, True)
        \<and> map_of ps ''returnString'' = Some (Str ''woot!?'', True)
        \<and> map_of ps ''toString'' = Some (builtin ''Object.prototype.toString'', False))
   \<and> (\<exists>ps. mergeResolved (literal [(''returnInt'', Num 3), (''returnString'', Str ''woot!?'')])
            (Obj None [(''returnInt'', Num 12, False)] objectPrototype) = Obj None ps objectPrototype
        \<and> map_of ps ''returnInt'' = Some (Num 12, False)
        \<and> map_of ps ''returnString'' = Some (Str ''woot!?'', True))
   \<and> mergeResolved (literal [(''returnInt'', Num 3)]) Null = Null
   \<and> mergeResolved (Num 3) Undefined = Num 3"
proof -
  let ?mt = "MockTypeResolve (ScalarT ''Int'') (Some ''Bird'') (Some ''returnInt'')"
  have old: "resolve sampleSchema (''Bird'', ''returnInt'') = Some (UserResolve ''const33'')
      \<and> (\<not> (queryType sampleSchema = Some ''Bird'' \<or> mutationType sampleSchema = Some ''Bird'')
           \<or> lookupMock sampleEnv (Some ''Bird'') = None)"
    by (simp add: sampleSchema_def)
  have ar: "assignResolveType True sampleSchema (ScalarT ''Int'') = sampleSchema"
    by (simp add: assignResolveType_def Let_def getNamedType_def getResolveType_def)
  have 1: "installField sampleEnv True sampleSchema (''Bird'', ''returnInt'', ScalarT ''Int'') =
     (None, sampleSchema\<lparr>resolve := (resolve sampleSchema)((''Bird'', ''returnInt'') :=
        Some (PreserveResolve ?mt (UserResolve ''const33'')))\<rparr>)"
    using preserve_merges_real_over_mock [where schema = sampleSchema and tn = "''Bird''" and fn = "''returnInt''"
        and old = "UserResolve ''const33''" and env = sampleEnv and ftype = "ScalarT ''Int''",
        THEN conjunct1, THEN mp, OF old]
    by (simp add: ar)
  have mt: "mockType sampleEnv (Some (ScalarT ''Int'')) (Some ''Bird'') (Some ''returnInt'') emptyObject noArgs 0
      = Inr (Num (- 100), 1)"
    by (simp add: mockType.simps sampleEnv_def emptyObject_def literal_def objectPrototype_def
        builtin_def getProp_def lookupChain_def chainProps_def orUndefined_def getNamedType_def lookupMock_def
        defaultMock_def Let_def)
  have 2: "runResolver sampleEnv (PreserveResolve ?mt (UserResolve ''const33'')) [] (ByValue emptyObject) noArgs 0
      = Inr (Num 33, [], 1)"
    using preserve_merges_real_over_mock [where env = sampleEnv and ty = "ScalarT ''Int''"
        and typeName = "Some ''Bird''" and fieldName = "Some ''returnInt''" and g = "''const33''"
        and h = "[]" and r = "ByValue emptyObject" and a = noArgs and n = 0,
        THEN conjunct2, THEN conjunct2, THEN conjunct1]
      preserve_merges_real_over_mock [where mv = "Num (- 100)" and rv = "Num 33",
        THEN conjunct2, THEN conjunct2, THEN conjunct2, THEN conjunct2, THEN conjunct2]
    by (simp add: deref_def mt) (simp add: sampleEnv_def)
  let ?s = "sampleSchema\<lparr>resolve := (resolve sampleSchema)((''RootQuery'', ''returnString'') := Some (UserResolve ''hello''))\<rparr>"
  have rt: "resolve ?s (''RootQuery'', ''returnString'') = Some (UserResolve ''hello'')
      \<and> (queryType ?s = Some ''RootQuery'' \<or> mutationType ?s = Some ''RootQuery'')
      \<and> lookupMock rootEnv (Some ''RootQuery'') = Some (funcObj ''RootQuery'')
      \<and> callFn rootEnv (funcObj ''RootQuery'') Undefined (emptyObject, emptyObject, emptyObject)
           = Inr (literal [(''returnString'', funcObj ''hello''), (''returnInt'', Num 0)])
      \<and> getPropChecked (literal [(''returnString'', funcObj ''hello''), (''returnInt'', Num 0)]) ''returnString''
           = Inr (funcObj ''hello'')"
    by (simp add: sampleSchema_def rootEnv_def sampleEnv_def lookupMock_def callFn_def funcObj_def
        getPropChecked_def getProp_def lookupChain_def chainProps_def literal_def)
  have 3: "resolve (snd (installField rootEnv True ?s (''RootQuery'', ''returnString'', ScalarT ''String'')))
        (''RootQuery'', ''returnString'')
       = Some (PreserveResolve (RootMockResolve (funcObj ''RootQuery'') (ScalarT ''String'') ''RootQuery'' ''returnString'')
                 (UserResolve ''hello''))"
    using preserve_merges_real_over_mock [where schema = ?s and tn = "''RootQuery''" and fn = "''returnString''"
        and old = "UserResolve ''hello''" and env = rootEnv and ftype = "ScalarT ''String''"
        and rootMock = "funcObj ''RootQuery''"
        and m = "literal [(''returnString'', funcObj ''hello''), (''returnInt'', Num 0)]"
        and pv = "funcObj ''hello''", THEN conjunct2, THEN conjunct1, THEN mp, OF rt]
    by (simp add: funcObj_def)
  let ?mv = "literal [(''returnInt'', Num 12), (''returnString'', Str ''woot!?'')]"
  let ?rv = "literal [(''returnInt'', Num 54321)]"
  have mb: "mockType birdEnv (Some (ObjectT ''Bird'')) (Some ''RootQuery'') (Some ''returnObject'') emptyObject noArgs 0
      = Inr (?mv, 0)"
    by (simp add: mockType.simps birdEnv_def sampleEnv_def emptyObject_def literal_def objectPrototype_def
        builtin_def getProp_def lookupChain_def chainProps_def orUndefined_def getNamedType_def lookupMock_def
        callFn_def funcObj_def Let_def)
  have cb: "call_fn birdEnv ''returnInt54321'' emptyObject noArgs = Inr ?rv"
    by (simp add: birdEnv_def sampleEnv_def)
  have run4: "runResolver birdEnv
              (PreserveResolve (MockTypeResolve (ObjectT ''Bird'') (Some ''RootQuery'') (Some ''returnObject''))
                 (UserResolve ''returnInt54321'')) [] (ByValue emptyObject) noArgs 0
            = Inr (mergeResolved ?mv ?rv, [], 0)"
    using preserve_merges_real_over_mock [where env = birdEnv and ty = "ObjectT ''Bird''"
        and typeName = "Some ''RootQuery''" and fieldName = "Some ''returnObject''" and g = "''returnInt54321''"
        and h = "[]" and r = "ByValue emptyObject" and a = noArgs and n = 0,
        THEN conjunct2, THEN conjunct2, THEN conjunct1]
    by (simp add: deref_def mb cb)
  have o4: "isObject ?mv \<and> isObject ?rv"
    by (simp add: literal_def)
  from preserve_merges_real_over_mock [where mv = ?mv and rv = ?rv,
      THEN conjunct2, THEN conjunct2, THEN conjunct2, THEN conjunct2, THEN conjunct1] o4
  obtain ps4 where p4: "mergeResolved ?mv ?rv = Obj None ps4 objectPrototype"
    and k4: "\<And>k. map_of ps4 k = (case lookupChain ?rv k of Some d \<Rightarrow> Some d | None \<Rightarrow> lookupChain ?mv k)"
    by blast
  have 4: "\<exists>ps. runResolver birdEnv
              (PreserveResolve (MockTypeResolve (ObjectT ''Bird'') (Some ''RootQuery'') (Some ''returnObject''))
                 (UserResolve ''returnInt54321'')) [] (ByValue emptyObject) noArgs 0
            = Inr (Obj None ps objectPrototype, [], 0)
        \<and> map_of ps ''returnInt'' = Some (Num 54321, True)
        \<and> map_of ps ''returnString'' = Some (Str ''woot!?'', True)
        \<and> map_of ps ''toString'' = Some (builtin ''Object.prototype.toString'', False)"
  proof (intro exI [of _ ps4] conjI)
    show "runResolver birdEnv
              (PreserveResolve (MockTypeResolve (ObjectT ''Bird'') (Some ''RootQuery'') (Some ''returnObject''))
                 (UserResolve ''returnInt54321'')) [] (ByValue emptyObject) noArgs 0
            = Inr (Obj None ps4 objectPrototype, [], 0)"
      unfolding run4 p4 by simp
    show "map_of ps4 ''returnInt'' = Some (Num 54321, True)"
      unfolding k4 by (simp add: lookupChain_def chainProps_def literal_def objectPrototype_def)
    show "map_of ps4 ''returnString'' = Some (Str ''woot!?'', True)"
      unfolding k4 by (simp add: lookupChain_def chainProps_def literal_def objectPrototype_def)
    show "map_of ps4 ''toString'' = Some (builtin ''Object.prototype.toString'', False)"
      unfolding k4 by (simp add: lookupChain_def chainProps_def literal_def objectPrototype_def)
  qed
  let ?mv5 = "literal [(''returnInt'', Num 3), (''returnString'', Str ''woot!?'')]"
  let ?rv5 = "Obj None [(''returnInt'', Num 12, False)] objectPrototype"
  have o5: "isObject ?mv5 \<and> isObject ?rv5"
    by (simp add: literal_def)
  from preserve_merges_real_over_mock [where mv = ?mv5 and rv = ?rv5,
      THEN conjunct2, THEN conjunct2, THEN conjunct2, THEN conjunct2, THEN conjunct1] o5
  obtain ps5 where p5: "mergeResolved ?mv5 ?rv5 = Obj None ps5 objectPrototype"
    and k5: "\<And>k. map_of ps5 k = (case lookupChain ?rv5 k of Some d \<Rightarrow> Some d | None \<Rightarrow> lookupChain ?mv5 k)"
    by blast
  have "map_of ps5 ''returnInt'' = Some (Num 12, False)"
    unfolding k5 by (simp add: lookupChain_def chainProps_def)
  moreover have "map_of ps5 ''returnString'' = Some (Str ''woot!?'', True)"
    unfolding k5 by (simp add: lookupChain_def chainProps_def literal_def objectPrototype_def)
  ultimately have 5: "\<exists>ps. mergeResolved ?mv5 ?rv5 = Obj None ps objectPrototype
        \<and> map_of ps ''returnInt'' = Some (Num 12, False)
        \<and> map_of ps ''returnString'' = Some (Str ''woot!?'', True)"
    using p5 by blast
  have 6: "mergeResolved (literal [(''returnInt'', Num 3)]) Null = Null"
    using preserve_merges_real_over_mock [where mv = "literal [(''returnInt'', Num 3)]" and rv = Null,
        THEN conjunct2, THEN conjunct2, THEN conjunct2, THEN conjunct2, THEN conjunct2]
    by simp
  have 7: "mergeResolved (Num 3) Undefined = Num 3"
    using preserve_merges_real_over_mock [where mv = "Num 3" and rv = Undefined,
        THEN conjunct2, THEN conjunct2, THEN conjunct2, THEN conjunct2, THEN conjunct2]
    by simp
  from 1 2 3 4 5 6 7 show ?thesis
    by blast
qed

section \<open>Properties of the root resolver\<close>




section \<open>Properties of the setup\<close>

lemma find_not_function:
  "\<exists>entry \<in> set m. \<not> isFunction (snd entry) \<Longrightarrow>
     \<exists>mockTypeName mockFunction. find (\<lambda>(mockTypeName, mockFunction). \<not> isFunction mockFunction) m
           = Some (mockTypeName, mockFunction) \<and> (mockTypeName, mockFunction) \<in> set m \<and> \<not> isFunction mockFunction"
  by (induction m) (auto split: prod.splits)

lemma namedType_unwrap: "getNamedType (getNullableType (Some ty)) = Some (unwrapType ty)"
  by (cases ty) (simp_all add: getNamedType_def)

lemma resolveType_assignResolveType:
  "resolveType (assignResolveType p schema ty) =
     (case abstractName ty of
        None \<Rightarrow> resolveType schema
      | Some nm \<Rightarrow>
          (if p \<and> isCustomized (resolveType schema nm) then resolveType schema
           else (resolveType schema)(nm := Some FallbackResolveType)))"
  unfolding assignResolveType_def Let_def namedType_unwrap abstractName_def
  by (cases "unwrapType ty")
    (simp_all add: getResolveType_def setResolveType_def isCustomized_def)

lemma resolveType_installField:
  "resolveType (snd (installField env p schema (typeName, fieldName, ftype)))
     = resolveType (assignResolveType p schema ftype)"
  by (simp add: installField_def Let_def split: sum.splits option.splits)

lemma visitFields_resolveType:
  assumes "visitFields (installField env p) fs s = (None, s')"
    and "\<forall>nm. resolveType s nm =
           (if nm \<in> V then expectedResolveType p (orig nm) else orig nm)"
  shows "\<forall>nm. resolveType s' nm =
           (if nm \<in> V \<union> set (List.map_filter (\<lambda>(typeName, fieldName, ftype). abstractName ftype) fs)
            then expectedResolveType p (orig nm) else orig nm)"
  using assms
proof (induction fs arbitrary: s V)
  case Nil
  then show ?case by (simp add: map_filter_simps)
next
  case (Cons f fs)
  obtain typeName fieldName ftype where f: "f = (typeName, fieldName, ftype)"
    by (cases f)
  obtain e s1 where s1: "installField env p s f = (e, s1)"
    by (cases "installField env p s f")
  with Cons.prems(1) have e: "e = None" and rest: "visitFields (installField env p) fs s1 = (None, s')"
    by (auto split: option.splits)
  have r1: "resolveType s1 = resolveType (assignResolveType p s ftype)"
    using resolveType_installField [of env p s typeName fieldName ftype] s1 f by simp
  let ?V' = "V \<union> (case abstractName ftype of None \<Rightarrow> {} | Some nm \<Rightarrow> {nm})"
  have inv: "\<forall>nm. resolveType s1 nm = (if nm \<in> ?V' then expectedResolveType p (orig nm) else orig nm)"
    unfolding r1 resolveType_assignResolveType
    using Cons.prems(2)
    by (auto simp: expectedResolveType_def isCustomized_def split: option.splits)
  have "?V' \<union> set (List.map_filter (\<lambda>(typeName, fieldName, ftype). abstractName ftype) fs)
      = V \<union> set (List.map_filter (\<lambda>(typeName, fieldName, ftype). abstractName ftype) (f # fs))"
    by (auto simp: f map_filter_simps split: option.splits)
  with Cons.IH [OF rest inv] show ?case
    by simp
qed

lemma sample_fields:
  "fieldsOf sampleSchema =
     [(''RootQuery'', ''returnInt'', ScalarT ''Int''),
      (''RootQuery'', ''returnMockError'', ScalarT ''MissingMockType''),
      (''RootQuery'', ''returnBirdsAndBees'', ListT (UnionT ''BirdsAndBees'' [''Bird'', ''Bee''])),
      (''RootQuery'', ''returnFlying'', NonNullT (InterfaceT ''Flying'')),
      (''Bird'', ''returnInt'', ScalarT ''Int'')]"
  by (simp add: fieldsOf_def sampleSchema_def orUndefined_def)

lemma sample_abstract: "abstractFieldTypes sampleSchema = [''BirdsAndBees'', ''Flying'']"
  by (simp add: abstractFieldTypes_def sample_fields map_filter_simps abstractName_def)

lemma visitFields_no_root_mock:
  "mockFunctionMap env = [] \<Longrightarrow> fst (visitFields (installField env p) fs s) = None"
proof (induction fs arbitrary: s)
  case Nil
  show ?case by simp
next
  case (Cons f fs)
  obtain typeName fieldName ftype where f: "f = (typeName, fieldName, ftype)"
    by (cases f)
  obtain e s1 where s1: "installField env p s f = (e, s1)"
    by (cases "installField env p s f")
  have "fst (installField env p s f) = None"
    using Cons.prems by (simp add: f installField_def Let_def lookupMock_def)
  with s1 have "e = None"
    by simp
  then show ?case
    using Cons.IH [OF Cons.prems, of s1] s1 by simp
qed

lemma setup_empty_registry:
  "\<exists>s'. addMockFunctionsToSchema env (Some schema) emptyObject p = (None, Some s')"
proof -
  have m: "buildMockFunctionMap emptyObject = []"
    by (simp add: buildMockFunctionMap_def emptyObject_def literal_def enumProps_def)
  have o: "emptyObject \<noteq> Undefined \<and> isObject emptyObject"
    by (simp add: emptyObject_def literal_def)
  have "fst (visitFields (installField (closure env schema []) p) (fieldsOf schema) schema) = None"
    by (rule visitFields_no_root_mock) (simp add: closure_def)
  then obtain s' where "visitFields (installField (closure env schema []) p) (fieldsOf schema) schema = (None, s')"
    by (cases "visitFields (installField (closure env schema []) p) (fieldsOf schema) schema") simp
  then show ?thesis
    using o by (simp add: addMockFunctionsToSchema_def Let_def m forEachField_def)
qed

text \<open>
  C8. The setup throws when the schema is absent, when a registry is given that is
  not an object (an array, a primitive, \<open>null\<close>), and when an entry of the registry is
  not a function, naming the first such entry. In each case it has written nothing:
  the schema is as it was. (An absent registry is the empty registry.)
\<close>

theorem setup_validates_before_installing:
  "addMockFunctionsToSchema env None mocks p = (Some (Error ''Must provide schema to mock''), None)
   \<and> (mocks \<noteq> Undefined \<and> \<not> isObject mocks \<longrightarrow>
        addMockFunctionsToSchema env (Some schema) mocks p
          = (Some (Error ''mocks must be of type Object''), Some schema))
   \<and> (isObject mocks \<and> (\<exists>entry \<in> set (buildMockFunctionMap mocks). \<not> isFunction (snd entry)) \<longrightarrow>
        (\<exists>mockTypeName mockFunction.
            (mockTypeName, mockFunction) \<in> set (buildMockFunctionMap mocks) \<and> \<not> isFunction mockFunction
          \<and> addMockFunctionsToSchema env (Some schema) mocks p
              = (Some (Error (''mockFunctionMap['' @ mockTypeName @ ''] must be a function'')), Some schema)))"
proof (intro conjI impI)
  show "addMockFunctionsToSchema env None mocks p = (Some (Error ''Must provide schema to mock''), None)"
    by (simp add: addMockFunctionsToSchema_def)
next
  assume "mocks \<noteq> Undefined \<and> \<not> isObject mocks"
  then show "addMockFunctionsToSchema env (Some schema) mocks p
          = (Some (Error ''mocks must be of type Object''), Some schema)"
    by (simp add: addMockFunctionsToSchema_def)
next
  assume h: "isObject mocks \<and> (\<exists>entry \<in> set (buildMockFunctionMap mocks). \<not> isFunction (snd entry))"
  then have u: "mocks \<noteq> Undefined"
    by auto
  from h find_not_function [of "buildMockFunctionMap mocks"]
  obtain k f where kf: "find (\<lambda>(mockTypeName, mockFunction). \<not> isFunction mockFunction) (buildMockFunctionMap mocks)
           = Some (k, f)" "(k, f) \<in> set (buildMockFunctionMap mocks)" "\<not> isFunction f"
    by blast
  have "addMockFunctionsToSchema env (Some schema) mocks p
              = (Some (Error (''mockFunctionMap['' @ k @ ''] must be a function'')), Some schema)"
    using h u kf(1) by (simp add: addMockFunctionsToSchema_def Let_def)
  with kf show "\<exists>mockTypeName mockFunction.
            (mockTypeName, mockFunction) \<in> set (buildMockFunctionMap mocks) \<and> \<not> isFunction mockFunction
          \<and> addMockFunctionsToSchema env (Some schema) mocks p
              = (Some (Error (''mockFunctionMap['' @ mockTypeName @ ''] must be a function'')), Some schema)"
    by blast
qed

theorem setup_validates_before_installing_witness:
  "addMockFunctionsToSchema sampleEnv None emptyObject False = (Some (Error ''Must provide schema to mock''), None)
   \<and> addMockFunctionsToSchema sampleEnv (Some sampleSchema) (Arr [Str ''a'']) False
       = (Some (Error ''mocks must be of type Object''), Some sampleSchema)
   \<and> addMockFunctionsToSchema sampleEnv (Some sampleSchema) (literal [(''Int'', Num 55)]) False
       = (Some (Error ''mockFunctionMap[Int] must be a function''), Some sampleSchema)"
proof -
  have b: "buildMockFunctionMap (literal [(''Int'', Num 55)]) = [(''Int'', Num 55)]"
    by (simp add: buildMockFunctionMap_def literal_def enumProps_def getProp_def lookupChain_def chainProps_def)
  note t = setup_validates_before_installing [where env = sampleEnv and schema = sampleSchema and p = False]
  have one: "addMockFunctionsToSchema sampleEnv None emptyObject False
      = (Some (Error ''Must provide schema to mock''), None)"
    using t [where mocks = emptyObject] by blast
  have two: "addMockFunctionsToSchema sampleEnv (Some sampleSchema) (Arr [Str ''a'']) False
       = (Some (Error ''mocks must be of type Object''), Some sampleSchema)"
    using t [where mocks = "Arr [Str ''a'']"] by simp
  have "isObject (literal [(''Int'', Num 55)])
      \<and> (\<exists>entry \<in> set (buildMockFunctionMap (literal [(''Int'', Num 55)])). \<not> isFunction (snd entry))"
    by (simp add: b) (simp add: literal_def)
  with t [where mocks = "literal [(''Int'', Num 55)]"]
  obtain k f where "(k, f) \<in> set (buildMockFunctionMap (literal [(''Int'', Num 55)]))"
    and r: "addMockFunctionsToSchema sampleEnv (Some sampleSchema) (literal [(''Int'', Num 55)]) False
       = (Some (Error (''mockFunctionMap['' @ k @ ''] must be a function'')), Some sampleSchema)"
    by blast
  then have "k = ''Int''"
    by (simp add: b)
  with r have three: "addMockFunctionsToSchema sampleEnv (Some sampleSchema) (literal [(''Int'', Num 55)]) False
       = (Some (Error ''mockFunctionMap[Int] must be a function''), Some sampleSchema)"
    by simp
  from one two three show ?thesis
    by blast
qed

text \<open>
  C9. On a field of the query or mutation type whose registry entry, probed with
  \<open>undefined\<close> as root and empty arguments, returns a value with a falsy entry at
  the field name, the setup installs the ordinary resolver \<open>mockType(field.type,
  typeName, fieldName)\<close> (composed with the old resolver in preserve mode when there
  is one) and throws nothing: the resolver of a root mock is not built, as when the
  registry has no entry for the type at all.
\<close>

theorem falsy_root_entry_is_skipped:
  assumes "queryType schema = Some typeName \<or> mutationType schema = Some typeName"
    and "lookupMock env (Some typeName) = Some rootMock"
    and "callFn env rootMock Undefined (emptyObject, emptyObject, emptyObject) = Inr m"
    and "getPropChecked m fieldName = Inr v"
    and "\<not> truthy v"
  shows "installField env p schema (typeName, fieldName, ftype) =
           (None, (assignResolveType p schema ftype)
              \<lparr>resolve := (resolve schema)((typeName, fieldName) := Some
                 (case (if p then resolve schema (typeName, fieldName) else None) of
                    None \<Rightarrow> MockTypeResolve ftype (Some typeName) (Some fieldName)
                  | Some oldResolver \<Rightarrow>
                      PreserveResolve (MockTypeResolve ftype (Some typeName) (Some fieldName)) oldResolver))\<rparr>)
       \<and> installField env p schema (typeName, fieldName, ftype) =
           installField (env\<lparr>mockFunctionMap := []\<rparr>) p schema (typeName, fieldName, ftype)"
  using assms
  by (auto simp: installField_def Let_def resolve_assignResolveType roots_assignResolveType lookupMock_def
      split: option.splits)

theorem falsy_root_entry_is_skipped_witness:
  "fst (installField rootEnv False sampleSchema (''RootQuery'', ''returnInt'', ScalarT ''Int'')) = None
   \<and> resolve (snd (installField rootEnv False sampleSchema (''RootQuery'', ''returnInt'', ScalarT ''Int'')))
        (''RootQuery'', ''returnInt'')
       = Some (MockTypeResolve (ScalarT ''Int'') (Some ''RootQuery'') (Some ''returnInt''))"
proof -
  have a: "queryType sampleSchema = Some ''RootQuery'' \<or> mutationType sampleSchema = Some ''RootQuery''"
    by (simp add: sampleSchema_def)
  have b: "lookupMock rootEnv (Some ''RootQuery'') = Some (funcObj ''RootQuery'')"
    by (simp add: lookupMock_def rootEnv_def)
  have c: "callFn rootEnv (funcObj ''RootQuery'') Undefined (emptyObject, emptyObject, emptyObject)
      = Inr (literal [(''returnString'', funcObj ''hello''), (''returnInt'', Num 0)])"
    by (simp add: callFn_def funcObj_def rootEnv_def sampleEnv_def)
  have d: "getPropChecked (literal [(''returnString'', funcObj ''hello''), (''returnInt'', Num 0)]) ''returnInt''
      = Inr (Num 0)"
    by (simp add: getPropChecked_def getProp_def literal_def lookupChain_def chainProps_def)
  have e: "\<not> truthy (Num 0)"
    by simp
  from falsy_root_entry_is_skipped [OF a b c d e, where p = False and ftype = "ScalarT ''Int''"]
  show ?thesis
    by simp
qed

text \<open>
  C7, as stated, fails: the setup reaches an abstract type only through the type of
  a field that \<open>forEachField\<close> visits. In the sample schema the interface \<open>Node\<close> is
  in the type map and no field returns it; after the setup, without the preserve
  flag, its \<open>resolveType\<close> slot is still empty.
\<close>

theorem setup_assigns_resolveType_counterexample:
  "fst (addMockFunctionsToSchema sampleEnv (Some sampleSchema) emptyObject False) = None
   \<and> resolveType (the (snd (addMockFunctionsToSchema sampleEnv (Some sampleSchema) emptyObject False))) ''Node''
       = None
   \<and> getType sampleSchema ''Node'' = Some (InterfaceT ''Node'')"
proof -
  obtain s' where s: "addMockFunctionsToSchema sampleEnv (Some sampleSchema) emptyObject False = (None, Some s')"
    using setup_empty_registry by blast
  then have v: "visitFields (installField (closure sampleEnv sampleSchema (buildMockFunctionMap emptyObject)) False)
      (fieldsOf sampleSchema) sampleSchema = (None, s')"
    by (auto simp: addMockFunctionsToSchema_def Let_def forEachField_def
        split: if_splits option.splits prod.splits)
  have "\<forall>nm. resolveType sampleSchema nm =
           (if nm \<in> {} then expectedResolveType False (resolveType sampleSchema nm) else resolveType sampleSchema nm)"
    by simp
  from visitFields_resolveType [OF v this]
  have "resolveType s' ''Node'' = resolveType sampleSchema ''Node''"
    by (simp add: sample_fields map_filter_simps abstractName_def)
  moreover have "resolveType sampleSchema ''Node'' = None"
    by (simp add: sampleSchema_def)
  moreover have "getType sampleSchema ''Node'' = Some (InterfaceT ''Node'')"
    by (simp add: sampleSchema_def getType_def)
  ultimately show ?thesis
    by (simp add: s)
qed

text \<open>
  C7, amended. After a setup that throws nothing, every union or interface that is
  the named type of a visited field (a field of an object type whose name does not
  start with two underscores) has the fallback as its \<open>resolveType\<close>, except that in
  preserve mode a \<open>resolveType\<close> that was there and declares at least one parameter
  is kept. Every other \<open>resolveType\<close> slot is as it was. The fallback reads
  \<open>typename\<close> off the value and returns the type that the schema has under that
  name, a type object being read as its name.
\<close>

theorem setup_assigns_resolveType:
  assumes "addMockFunctionsToSchema env (Some schema) mocks p = (None, Some schema')"
  shows "(\<forall>nm. resolveType schema' nm =
            (if nm \<in> set (abstractFieldTypes schema)
             then expectedResolveType p (resolveType schema nm)
             else resolveType schema nm))
       \<and> (\<forall>data m. data \<noteq> Undefined \<and> data \<noteq> Null
             \<and> (getProp data ''typename'' = TypeObj m \<or> getProp data ''typename'' = Str m) \<longrightarrow>
             fallbackResolveType schema' data = Inr (getType schema' m))"
proof
  define mocks' where "mocks' = (if mocks = Undefined then emptyObject else mocks)"
  define m where "m = buildMockFunctionMap mocks'"
  from assms have v: "visitFields (installField (closure env schema m) p) (fieldsOf schema) schema = (None, schema')"
    by (auto simp: addMockFunctionsToSchema_def Let_def forEachField_def mocks'_def m_def
        split: if_splits option.splits prod.splits)
  have "\<forall>nm. resolveType schema nm =
           (if nm \<in> {} then expectedResolveType p (resolveType schema nm) else resolveType schema nm)"
    by simp
  from visitFields_resolveType [OF v this]
  show "\<forall>nm. resolveType schema' nm =
            (if nm \<in> set (abstractFieldTypes schema)
             then expectedResolveType p (resolveType schema nm)
             else resolveType schema nm)"
    by (simp add: abstractFieldTypes_def)
  show "\<forall>data m. data \<noteq> Undefined \<and> data \<noteq> Null
             \<and> (getProp data ''typename'' = TypeObj m \<or> getProp data ''typename'' = Str m) \<longrightarrow>
             fallbackResolveType schema' data = Inr (getType schema' m)"
    by (auto simp: fallbackResolveType_def getPropChecked_def)
qed

theorem setup_assigns_resolveType_witness:
  "\<exists>s'. addMockFunctionsToSchema sampleEnv (Some sampleSchema) emptyObject True = (None, Some s')
     \<and> resolveType s' ''BirdsAndBees'' = Some FallbackResolveType
     \<and> resolveType s' ''Flying'' = Some (ResolveTypeFn ''resolveFlying'' 3)
     \<and> resolveType s' ''Node'' = None"
proof -
  obtain s' where s: "addMockFunctionsToSchema sampleEnv (Some sampleSchema) emptyObject True = (None, Some s')"
    using setup_empty_registry by blast
  from setup_assigns_resolveType [OF s]
  have r: "\<And>nm. resolveType s' nm =
            (if nm \<in> set (abstractFieldTypes sampleSchema)
             then expectedResolveType True (resolveType sampleSchema nm)
             else resolveType sampleSchema nm)"
    by blast
  have mem: "''BirdsAndBees'' \<in> set (abstractFieldTypes sampleSchema)
      \<and> ''Flying'' \<in> set (abstractFieldTypes sampleSchema)
      \<and> ''Node'' \<notin> set (abstractFieldTypes sampleSchema)"
    by (simp add: sample_abstract)
  have old: "resolveType sampleSchema ''BirdsAndBees'' = Some (ResolveTypeFn ''cannotExecuteSchema'' 0)
      \<and> resolveType sampleSchema ''Flying'' = Some (ResolveTypeFn ''resolveFlying'' 3)
      \<and> resolveType sampleSchema ''Node'' = None"
    by (simp add: sampleSchema_def)
  have "resolveType s' ''BirdsAndBees'' = Some FallbackResolveType"
    unfolding r by (simp add: mem old expectedResolveType_def isCustomized_def)
  moreover have "resolveType s' ''Flying'' = Some (ResolveTypeFn ''resolveFlying'' 3)"
    unfolding r by (simp add: mem old expectedResolveType_def isCustomized_def)
  moreover have "resolveType s' ''Node'' = None"
    unfolding r by (simp add: mem old)
  ultimately show ?thesis
    using s by blast
qed

end
